theory Spec2Isabelle
  imports Main "HOL-Library.AList"
begin

section \<open>Python strings\<close>

text \<open>
  A Python \<open>str\<close> is a sequence of Unicode code points, and \<open>str.strip\<close>,
  \<open>str.isdigit\<close> and \<open>int\<close> classify each code point on its own. A string is
  therefore a list of code points. The literals of \<open>handlers/random_illust.py\<close> are
  Chinese text and are written out as their code points.
\<close>

type_synonym pystr = "nat list"

text \<open>The code points for which \<open>str.isspace\<close> holds; \<open>str.strip()\<close> removes them.\<close>

definition isspace_char :: "nat \<Rightarrow> bool" where
  "isspace_char c =
     list_ex (\<lambda>(lo, hi). lo \<le> c \<and> c \<le> hi)
       [(0x9, 0xD), (0x1C, 0x20), (0x85, 0x85), (0xA0, 0xA0), (0x1680, 0x1680),
        (0x2000, 0x200A), (0x2028, 0x2029), (0x202F, 0x202F), (0x205F, 0x205F),
        (0x3000, 0x3000)]"

definition strip :: "pystr \<Rightarrow> pystr" where
  "strip s = rev (dropWhile isspace_char (rev (dropWhile isspace_char s)))"

text \<open>
  Unicode decimal digits (category Nd) come in runs of ten, from the digit zero to the
  digit nine. \<open>decimal_zeros\<close> lists the code point of the zero of each run
  (Unicode 14, the table of the CPython 3.11 \<open>unicodedata\<close> module).
\<close>

definition decimal_zeros :: "nat list" where
  "decimal_zeros =
     [0x30, 0x660, 0x6F0, 0x7C0, 0x966, 0x9E6, 0xA66, 0xAE6, 0xB66, 0xBE6, 0xC66, 0xCE6,
      0xD66, 0xDE6, 0xE50, 0xED0, 0xF20, 0x1040, 0x1090, 0x17E0, 0x1810, 0x1946, 0x19D0,
      0x1A80, 0x1A90, 0x1B50, 0x1BB0, 0x1C40, 0x1C50, 0xA620, 0xA8D0, 0xA900, 0xA9D0,
      0xA9F0, 0xAA50, 0xABF0, 0xFF10, 0x104A0, 0x10D30, 0x11066, 0x110F0, 0x11136,
      0x111D0, 0x112F0, 0x11450, 0x114D0, 0x11650, 0x116C0, 0x11730, 0x118E0, 0x11950,
      0x11C50, 0x11D50, 0x11DA0, 0x16A60, 0x16AC0, 0x16B50, 0x1D7CE, 0x1D7D8, 0x1D7E2,
      0x1D7EC, 0x1D7F6, 0x1E140, 0x1E2F0, 0x1E950, 0x1FBF0]"

text \<open>\<open>unicodedata.decimal\<close>: the value of a decimal digit, \<open>None\<close> for any other code point.\<close>

definition py_decimal :: "nat \<Rightarrow> nat option" where
  "py_decimal c =
     (case find (\<lambda>z. z \<le> c \<and> c < z + 10) decimal_zeros of
        None \<Rightarrow> None
      | Some z \<Rightarrow> Some (c - z))"

text \<open>
  Code points that \<open>str.isdigit\<close> accepts although they are no decimal digits
  (superscripts, subscripts, circled and parenthesised digits, ...): \<open>int\<close> rejects them.
\<close>

definition digit_only_ranges :: "(nat \<times> nat) list" where
  "digit_only_ranges =
     [(0xB2, 0xB3), (0xB9, 0xB9), (0x1369, 0x1371), (0x19DA, 0x19DA), (0x2070, 0x2070),
      (0x2074, 0x2079), (0x2080, 0x2089), (0x2460, 0x2468), (0x2474, 0x247C),
      (0x2488, 0x2490), (0x24EA, 0x24EA), (0x24F5, 0x24FD), (0x24FF, 0x24FF),
      (0x2776, 0x277E), (0x2780, 0x2788), (0x278A, 0x2792), (0x10A40, 0x10A43),
      (0x10E60, 0x10E68), (0x11052, 0x1105A), (0x1F100, 0x1F10A)]"

definition isdigit_char :: "nat \<Rightarrow> bool" where
  "isdigit_char c =
     (py_decimal c \<noteq> None \<or> list_ex (\<lambda>(lo, hi). lo \<le> c \<and> c \<le> hi) digit_only_ranges)"

text \<open>\<open>str.isdigit()\<close>: at least one character, and every character a digit.\<close>

definition isdigit :: "pystr \<Rightarrow> bool" where
  "isdigit s = (s \<noteq> [] \<and> list_all isdigit_char s)"

datatype exn = ValueError

text \<open>
  \<open>int(s)\<close>, as the handler reaches it: behind the \<open>isdigit\<close> guard the string has no
  sign, blank or underscore, and \<open>int\<close> returns the base-ten value when every
  character is a decimal digit and raises \<open>ValueError\<close> otherwise. Python integers are
  unbounded, but \<open>int\<close> refuses to convert a string of more than
  \<open>sys.int_info.default_max_str_digits\<close> digits (4300 in CPython 3.11, leading zeros
  counted) and raises \<open>ValueError\<close> on it.
\<close>

definition int_max_str_digits :: nat where
  "int_max_str_digits = 4300"

fun decimal_value :: "nat \<Rightarrow> pystr \<Rightarrow> exn + nat" where
  "decimal_value acc [] = Inr acc"
| "decimal_value acc (c # cs) =
     (case py_decimal c of
        None \<Rightarrow> Inl ValueError
      | Some d \<Rightarrow> decimal_value (10 * acc + d) cs)"

definition py_int :: "pystr \<Rightarrow> exn + int" where
  "py_int s =
     (if s = [] then Inl ValueError
      else if int_max_str_digits < length s then Inl ValueError
      else case decimal_value 0 s of Inl e \<Rightarrow> Inl e | Inr n \<Rightarrow> Inr (int n))"

text \<open>\<open>str(n)\<close> of an integer, as the f-strings of the handlers format it.\<close>

function str_nat :: "nat \<Rightarrow> pystr" where
  "str_nat n = (if n < 10 then [0x30 + n] else str_nat (n div 10) @ [0x30 + n mod 10])"
  by pat_completeness auto
termination
  by (relation "measure id") auto

declare str_nat.simps [simp del]

definition py_str :: "int \<Rightarrow> pystr" where
  "py_str i = (if i < 0 then 0x2D # str_nat (nat (- i)) else str_nat (nat i))"

text \<open>\<open>sep.join(xs)\<close>.\<close>

fun join :: "pystr \<Rightarrow> pystr list \<Rightarrow> pystr" where
  "join sep [] = []"
| "join sep [x] = x"
| "join sep (x # y # ys) = x @ sep @ join sep (y # ys)"

section \<open>Events and the collaborators of the handlers\<close>

text \<open>
  What a handler reads of an \<open>AstrMessageEvent\<close>: \<open>get_group_id()\<close> (\<open>None\<close> or the
  empty string outside a group), \<open>get_sender_id()\<close> and \<open>unified_msg_origin\<close>.
\<close>

record event =
  get_group_id :: "pystr option"
  get_sender_id :: pystr
  unified_msg_origin :: pystr

text \<open>
  \<open>event.get_group_id() or event.get_sender_id()\<close>: Python's \<open>or\<close> yields its left
  operand when that is truthy (here: a non-empty string) and its right operand otherwise.
\<close>

definition chat_id_of :: "event \<Rightarrow> pystr" where
  "chat_id_of ev =
     (case get_group_id ev of
        None \<Rightarrow> get_sender_id ev
      | Some g \<Rightarrow> if g \<noteq> [] then g else get_sender_id ev)"

text \<open>The dictionary \<open>validate_and_process_tags\<close> returns, by the keys the handler reads.\<close>

record tag_result =
  success :: bool
  error_message :: pystr

text \<open>A row of \<open>get_random_tags\<close>; the handler reads its \<open>tag\<close> attribute.\<close>

record tag_entry =
  tag :: pystr

text \<open>The dictionary \<open>get_queue_status\<close> returns, by the keys the handler reads.\<close>

record queue_status =
  queue_size :: int
  is_queue_processor_running :: bool
  active_groups :: "pystr list"
  execution_locks :: "(pystr \<times> bool) list"

text \<open>
  The functions imported from \<open>utils/database.py\<close> and the methods of
  \<open>RandomSearchService\<close> are not part of the handlers: they are parameters of the model,
  each a function of its arguments and the state \<open>'w\<close> behind it (database and
  scheduler), returning its result and the state it leaves.
\<close>

record 'w tag_store =
  add_random_tag :: "pystr \<Rightarrow> pystr \<Rightarrow> pystr \<Rightarrow> 'w \<Rightarrow> (bool \<times> pystr) \<times> 'w"
  remove_random_tag :: "pystr \<Rightarrow> int \<Rightarrow> 'w \<Rightarrow> (bool \<times> pystr) \<times> 'w"
  get_random_tags :: "pystr \<Rightarrow> 'w \<Rightarrow> tag_entry list \<times> 'w"
  suspend_random_search :: "pystr \<Rightarrow> 'w \<Rightarrow> (bool \<times> pystr) \<times> 'w"
  resume_random_search :: "pystr \<Rightarrow> 'w \<Rightarrow> (bool \<times> pystr) \<times> 'w"
  get_random_search_status :: "pystr \<Rightarrow> 'w \<Rightarrow> (bool \<times> bool) \<times> 'w"

record 'w random_search_service =
  suspend_group_search :: "pystr \<Rightarrow> 'w \<Rightarrow> 'w"
  resume_group_search :: "pystr \<Rightarrow> 'w \<Rightarrow> 'w"
  get_queue_status :: "'w \<Rightarrow> queue_status \<times> 'w"
  force_execute_group :: "pystr \<Rightarrow> 'w \<Rightarrow> bool \<times> 'w"

text \<open>Every call a handler makes on a collaborator, with its arguments, in order.\<close>

datatype call =
    AddRandomTag pystr pystr pystr
  | RemoveRandomTag pystr int
  | GetRandomTags pystr
  | SuspendRandomSearch pystr
  | ResumeRandomSearch pystr
  | GetRandomSearchStatus pystr
  | SuspendGroupSearch pystr
  | ResumeGroupSearch pystr
  | GetQueueStatus
  | ForceExecuteGroup pystr

text \<open>
  What running a handler (an async generator) to its end leaves: the state, the texts
  it yielded through \<open>event.plain_result\<close>, the calls it made, and the exception it
  raised, if any.
\<close>

record 'w outcome =
  world :: 'w
  yielded :: "pystr list"
  calls :: "call list"
  raised :: "exn option"

section \<open>The handlers of \<open>RandomIllustHandler\<close>\<close>

text \<open>
  \<open>handlers/random_illust.py\<close>. Each handler is an async generator; the model returns
  what running it to its end leaves. The validator \<open>validate_and_process_tags\<close>, the
  store \<open>db\<close> and the service \<open>svc\<close> are the parameters described above.
\<close>

subsection \<open>The literal texts\<close>

definition msg_add_usage :: pystr where
  "msg_add_usage =
     [0x8BF7, 0x8F93, 0x5165, 0x8981, 0x6DFB, 0x52A0, 0x7684, 0x968F, 0x673A, 0x641C,
      0x7D22, 0x6807, 0x7B7E, 0x3002]"

definition msg_del_usage :: pystr where
  "msg_del_usage =
     [0x8BF7, 0x8F93, 0x5165, 0x8981, 0x5220, 0x9664, 0x7684, 0x6807, 0x7B7E, 0x5E8F,
      0x53F7, 0x20, 0x28, 0x6570, 0x5B57, 0x29, 0x3002, 0x53EF, 0x901A, 0x8FC7, 0x20,
      0x2F, 0x70, 0x69, 0x78, 0x69, 0x76, 0x5F, 0x72, 0x61, 0x6E, 0x64, 0x6F, 0x6D, 0x5F,
      0x6C, 0x69, 0x73, 0x74, 0x20, 0x67E5, 0x770B, 0x3002]"

definition msg_no_tags :: pystr where
  "msg_no_tags =
     [0x5F53, 0x524D, 0x6CA1, 0x6709, 0x4EFB, 0x4F55, 0x968F, 0x673A, 0x641C, 0x7D22,
      0x6807, 0x7B7E, 0x3002]"

definition msg_list_header :: pystr where
  "msg_list_header =
     [0x5F53, 0x524D, 0x968F, 0x673A, 0x641C, 0x7D22, 0x6807, 0x7B7E, 0x5217, 0x8868,
      0xFF1A, 0xA]"

definition msg_no_config :: pystr where
  "msg_no_config =
     [0x5F53, 0x524D, 0x7FA4, 0x804A, 0x6CA1, 0x6709, 0x914D, 0x7F6E, 0x968F, 0x673A,
      0x641C, 0x7D22, 0x6807, 0x7B7E, 0x3002]"

definition msg_already_suspended :: pystr where
  "msg_already_suspended =
     [0x5F53, 0x524D, 0x7FA4, 0x804A, 0x7684, 0x968F, 0x673A, 0x641C, 0x7D22, 0x5DF2,
      0x7ECF, 0x5904, 0x4E8E, 0x6682, 0x505C, 0x72B6, 0x6001, 0x3002]"

definition msg_already_running :: pystr where
  "msg_already_running =
     [0x5F53, 0x524D, 0x7FA4, 0x804A, 0x7684, 0x968F, 0x673A, 0x641C, 0x7D22, 0x5DF2,
      0x7ECF, 0x5904, 0x4E8E, 0x8FD0, 0x884C, 0x72B6, 0x6001, 0x3002]"

definition msg_status_header :: pystr where
  "msg_status_header =
     [0x968F, 0x673A, 0x641C, 0x7D22, 0x961F, 0x5217, 0x72B6, 0x6001, 0xFF1A, 0xA]"

definition lbl_queue_size :: pystr where
  "lbl_queue_size = [0x961F, 0x5217, 0x5927, 0x5C0F, 0x3A, 0x20]"

definition lbl_processor_running :: pystr where
  "lbl_processor_running =
     [0x961F, 0x5217, 0x5904, 0x7406, 0x5668, 0x8FD0, 0x884C, 0x4E2D, 0x3A, 0x20]"

definition txt_yes :: pystr where
  "txt_yes = [0x662F]"

definition txt_no :: pystr where
  "txt_no = [0x5426]"

definition lbl_active_count :: pystr where
  "lbl_active_count = [0x6D3B, 0x8DC3, 0x7FA4, 0x7EC4, 0x6570, 0x91CF, 0x3A, 0x20]"

definition lbl_active_groups :: pystr where
  "lbl_active_groups = [0x6D3B, 0x8DC3, 0x7FA4, 0x7EC4, 0x3A, 0x20]"

definition lbl_locks :: pystr where
  "lbl_locks = [0x603B, 0x9501, 0x72B6, 0x6001, 0x3A, 0x20]"

definition txt_locks_suffix :: pystr where
  "txt_locks_suffix = [0x20, 0x4E2A, 0x7FA4, 0x7EC4, 0xA]"

definition msg_force_queued :: pystr where
  "msg_force_queued =
     [0x5DF2, 0x5F3A, 0x5236, 0x5C06, 0x5F53, 0x524D, 0x7FA4, 0x804A, 0x52A0, 0x5165,
      0x6267, 0x884C, 0x961F, 0x5217, 0xFF0C, 0x8BF7, 0x7A0D, 0x7B49, 0x2E, 0x2E, 0x2E]"

definition msg_force_failed :: pystr where
  "msg_force_failed =
     [0x5F3A, 0x5236, 0x6267, 0x884C, 0x5931, 0x8D25, 0xFF0C, 0x7FA4, 0x7EC4, 0x53EF,
      0x80FD, 0x6B63, 0x5728, 0x6267, 0x884C, 0x4E2D, 0x3002]"

subsection \<open>\<open>pixiv_random_add\<close>\<close>

definition pixiv_random_add ::
  "(pystr \<Rightarrow> tag_result) \<Rightarrow> 'w tag_store \<Rightarrow> event \<Rightarrow> pystr \<Rightarrow> 'w \<Rightarrow> 'w outcome" where
  "pixiv_random_add validate_and_process_tags db ev tags w =
     (let cleaned_tags = strip tags in
      if cleaned_tags = [] then
        \<lparr>world = w, yielded = [msg_add_usage], calls = [], raised = None\<rparr>
      else
        let tag_result = validate_and_process_tags cleaned_tags in
        if \<not> success tag_result then
          \<lparr>world = w, yielded = [error_message tag_result], calls = [], raised = None\<rparr>
        else
          let chat_id = chat_id_of ev;
              session_id = unified_msg_origin ev;
              ((ok, message), w') = add_random_tag db chat_id session_id cleaned_tags w
          in \<lparr>world = w', yielded = [message],
              calls = [AddRandomTag chat_id session_id cleaned_tags], raised = None\<rparr>)"

subsection \<open>\<open>pixiv_random_del\<close>\<close>

definition pixiv_random_del :: "'w tag_store \<Rightarrow> event \<Rightarrow> pystr \<Rightarrow> 'w \<Rightarrow> 'w outcome" where
  "pixiv_random_del db ev index w =
     (if \<not> isdigit index then
        \<lparr>world = w, yielded = [msg_del_usage], calls = [], raised = None\<rparr>
      else
        case py_int index of
          Inl e \<Rightarrow> \<lparr>world = w, yielded = [], calls = [], raised = Some e\<rparr>
        | Inr n \<Rightarrow>
            let idx = n - 1;
                chat_id = chat_id_of ev;
                ((ok, message), w') = remove_random_tag db chat_id idx w
            in \<lparr>world = w', yielded = [message],
                calls = [RemoveRandomTag chat_id idx], raised = None\<rparr>)"

subsection \<open>\<open>pixiv_random_list\<close>\<close>

text \<open>
  The loop \<open>for i, tag_entry in enumerate(tags): msg += f"{i+1}. {tag_entry.tag}\n"\<close>,
  from index \<open>i\<close> on, with the text built so far.
\<close>

fun render_tags :: "nat \<Rightarrow> tag_entry list \<Rightarrow> pystr \<Rightarrow> pystr" where
  "render_tags i [] msg = msg"
| "render_tags i (tag_entry # rest) msg =
     render_tags (i + 1) rest (msg @ str_nat (i + 1) @ [0x2E, 0x20] @ tag tag_entry @ [0xA])"

definition pixiv_random_list :: "'w tag_store \<Rightarrow> event \<Rightarrow> pystr \<Rightarrow> 'w \<Rightarrow> 'w outcome" where
  "pixiv_random_list db ev args w =
     (let chat_id = chat_id_of ev;
          (tag_rows, w') = get_random_tags db chat_id w
      in if tag_rows = [] then
           \<lparr>world = w', yielded = [msg_no_tags], calls = [GetRandomTags chat_id],
            raised = None\<rparr>
         else
           \<lparr>world = w', yielded = [render_tags 0 tag_rows msg_list_header],
            calls = [GetRandomTags chat_id], raised = None\<rparr>)"

subsection \<open>\<open>pixiv_random_suspend\<close> and \<open>pixiv_random_resume\<close>\<close>

definition pixiv_random_suspend ::
  "'w tag_store \<Rightarrow> 'w random_search_service \<Rightarrow> event \<Rightarrow> 'w \<Rightarrow> 'w outcome" where
  "pixiv_random_suspend db svc ev w =
     (let chat_id = chat_id_of ev;
          ((has_config, is_suspended), w1) = get_random_search_status db chat_id w
      in if \<not> has_config then
           \<lparr>world = w1, yielded = [msg_no_config],
            calls = [GetRandomSearchStatus chat_id], raised = None\<rparr>
         else if is_suspended then
           \<lparr>world = w1, yielded = [msg_already_suspended],
            calls = [GetRandomSearchStatus chat_id], raised = None\<rparr>
         else
           let ((ok, message), w2) = suspend_random_search db chat_id w1 in
           if ok then
             \<lparr>world = suspend_group_search svc chat_id w2, yielded = [message],
              calls = [GetRandomSearchStatus chat_id, SuspendRandomSearch chat_id,
                       SuspendGroupSearch chat_id],
              raised = None\<rparr>
           else
             \<lparr>world = w2, yielded = [message],
              calls = [GetRandomSearchStatus chat_id, SuspendRandomSearch chat_id],
              raised = None\<rparr>)"

definition pixiv_random_resume ::
  "'w tag_store \<Rightarrow> 'w random_search_service \<Rightarrow> event \<Rightarrow> 'w \<Rightarrow> 'w outcome" where
  "pixiv_random_resume db svc ev w =
     (let chat_id = chat_id_of ev;
          ((has_config, is_suspended), w1) = get_random_search_status db chat_id w
      in if \<not> has_config then
           \<lparr>world = w1, yielded = [msg_no_config],
            calls = [GetRandomSearchStatus chat_id], raised = None\<rparr>
         else if \<not> is_suspended then
           \<lparr>world = w1, yielded = [msg_already_running],
            calls = [GetRandomSearchStatus chat_id], raised = None\<rparr>
         else
           let ((ok, message), w2) = resume_random_search db chat_id w1 in
           if ok then
             \<lparr>world = resume_group_search svc chat_id w2, yielded = [message],
              calls = [GetRandomSearchStatus chat_id, ResumeRandomSearch chat_id,
                       ResumeGroupSearch chat_id],
              raised = None\<rparr>
           else
             \<lparr>world = w2, yielded = [message],
              calls = [GetRandomSearchStatus chat_id, ResumeRandomSearch chat_id],
              raised = None\<rparr>)"

subsection \<open>\<open>pixiv_random_status\<close>\<close>

text \<open>The text the handler builds from the snapshot, one \<open>msg +=\<close> after the other.\<close>

definition status_text :: "queue_status \<Rightarrow> pystr" where
  "status_text status =
     (let msg0 = msg_status_header;
          msg1 = msg0 @ lbl_queue_size @ py_str (queue_size status) @ [0xA];
          msg2 = msg1 @ lbl_processor_running
                   @ (if is_queue_processor_running status then txt_yes else txt_no) @ [0xA];
          msg3 = msg2 @ lbl_active_count
                   @ py_str (int (length (active_groups status))) @ [0xA];
          msg4 = (if active_groups status \<noteq> [] then
                    msg3 @ lbl_active_groups @ join [0x2C, 0x20] (active_groups status) @ [0xA]
                  else msg3)
      in msg4 @ lbl_locks @ py_str (int (length (execution_locks status))) @ txt_locks_suffix)"

definition pixiv_random_status :: "'w random_search_service \<Rightarrow> event \<Rightarrow> 'w \<Rightarrow> 'w outcome" where
  "pixiv_random_status svc ev w =
     (let (status, w') = get_queue_status svc w
      in \<lparr>world = w', yielded = [status_text status], calls = [GetQueueStatus],
          raised = None\<rparr>)"

subsection \<open>\<open>pixiv_random_force\<close>\<close>

definition pixiv_random_force ::
  "'w tag_store \<Rightarrow> 'w random_search_service \<Rightarrow> event \<Rightarrow> 'w \<Rightarrow> 'w outcome" where
  "pixiv_random_force db svc ev w =
     (let chat_id = chat_id_of ev;
          ((has_config, is_suspended), w1) = get_random_search_status db chat_id w
      in if \<not> has_config then
           \<lparr>world = w1, yielded = [msg_no_config],
            calls = [GetRandomSearchStatus chat_id], raised = None\<rparr>
         else
           let (ok, w2) = force_execute_group svc chat_id w1 in
           if ok then
             \<lparr>world = w2, yielded = [msg_force_queued],
              calls = [GetRandomSearchStatus chat_id, ForceExecuteGroup chat_id],
              raised = None\<rparr>
           else
             \<lparr>world = w2, yielded = [msg_force_failed],
              calls = [GetRandomSearchStatus chat_id, ForceExecuteGroup chat_id],
              raised = None\<rparr>)"

section \<open>The plugin: \<open>main.py\<close>\<close>





text \<open>
  Modelled from the spec: \<open>utils/random_search.py\<close> is not among the sources. Of the
  life cycle of \<open>RandomSearchService\<close> the spec (section 5) says that it has one
  background task for the tick generator and one for the queue processor;
  \<open>start()\<close> launches both.
\<close>

record service_tasks =
  tick_generator_running :: bool
  queue_processor_running :: bool

text \<open>
  Modelled from the spec: \<open>start()\<close> of \<open>RandomSearchService\<close>, which \<open>__init__\<close> calls,
  leaves both background tasks running.
\<close>

definition service_start :: service_tasks where
  "service_start = \<lparr>tick_generator_running = True, queue_processor_running = True\<rparr>"

text \<open>
  The plugin object, by the fields \<open>terminate\<close> reads: \<open>sub_service\<close>
  (\<open>None\<close> when subscriptions are disabled, else whether the service runs),
  \<open>_refresh_task\<close> (\<open>None\<close>, else whether the task is done), \<open>_http_session\<close>
  (\<open>None\<close>, else whether the session is closed) and \<open>random_search_service\<close>.
\<close>

record plugin =
  sub_service :: "bool option"
  refresh_task :: "bool option"
  http_session :: "bool option"
  random_search_service :: service_tasks

text \<open>
  \<open>__init__\<close>: the subscription service is created and started only when subscriptions
  are enabled; the refresh task is created but never kept in \<open>_refresh_task\<close>; the
  random search service of the handler is started.
\<close>

definition plugin_init :: "bool \<Rightarrow> plugin" where
  "plugin_init subscription_enabled =
     \<lparr>sub_service = (if subscription_enabled then Some True else None),
      refresh_task = None,
      http_session = None,
      random_search_service = service_start\<rparr>"

text \<open>
  \<open>terminate\<close>: stop the subscription service if there is one; cancel the refresh task
  and wait for it if there is one that is not done; close the HTTP session if there is
  one that is not closed.
\<close>

definition terminate :: "plugin \<Rightarrow> plugin" where
  "terminate p =
     (let p1 = (case sub_service p of
                  None \<Rightarrow> p
                | Some running \<Rightarrow> p\<lparr>sub_service := Some False\<rparr>);
          p2 = (case refresh_task p1 of
                  None \<Rightarrow> p1
                | Some finished \<Rightarrow>
                    if \<not> finished then p1\<lparr>refresh_task := Some True\<rparr> else p1);
          p3 = (case http_session p2 of
                  None \<Rightarrow> p2
                | Some closed \<Rightarrow>
                    if \<not> closed then p2\<lparr>http_session := Some True\<rparr> else p2)
      in p3)"

section \<open>The Tag Store, as specified\<close>

text \<open>
  Modelled from the spec: \<open>utils/database.py\<close> is not among the sources. The store is
  the one of sections 3 and 4.1: a \<open>ChatSearchConfig\<close> per chat, with the session, the
  ordered tags and the suspended flag, kept in an association list by \<open>chat_id\<close>.
\<close>

record chat_search_config =
  session_id :: pystr
  tags :: "pystr list"
  suspended :: bool

type_synonym tag_db = "(pystr \<times> chat_search_config) list"

text \<open>
  Modelled from the spec: the error classes of section 7 that a command can meet, and
  what an operation of the store reports. The wording of the status strings is not
  specified; it is the parameter \<open>says\<close> below.
\<close>

datatype failure = ValidationError | NotFoundError | AlreadyInState

text \<open>Modelled from the spec: the outcome of an operation of the store, before its wording.\<close>

datatype report = TagAdded | TagRemoved | SearchSuspended | SearchResumed | Failed failure

text \<open>
  Modelled from the spec: the success flag of a report; every report but a failure is a
  success.
\<close>

fun is_ok :: "report \<Rightarrow> bool" where
  "is_ok (Failed f) = False"
| "is_ok r = True"

text \<open>
  Modelled from the spec: \<open>add_tag\<close> appends to the chat's tag list and creates the
  config if absent; it fails with \<open>ValidationError\<close> if the text is empty or malformed
  (the external validator is the parameter \<open>well_formed\<close>).
\<close>

definition add_tag ::
  "(pystr \<Rightarrow> bool) \<Rightarrow> pystr \<Rightarrow> pystr \<Rightarrow> pystr \<Rightarrow> tag_db \<Rightarrow> report \<times> tag_db" where
  "add_tag well_formed chat_id session tag_text db =
     (if tag_text = [] \<or> \<not> well_formed tag_text then (Failed ValidationError, db)
      else
        case map_of db chat_id of
          None \<Rightarrow>
            (TagAdded,
             db @ [(chat_id, \<lparr>session_id = session, tags = [tag_text], suspended = False\<rparr>)])
        | Some cfg \<Rightarrow>
            (TagAdded, AList.update chat_id (cfg\<lparr>tags := tags cfg @ [tag_text]\<rparr>) db))"

text \<open>
  Modelled from the spec: \<open>remove_tag\<close> takes a 0-based index and fails if the index is
  negative or not below the length of the list (\<open>IndexOutOfRange\<close>, which section 7
  files under \<open>NotFoundError\<close>, as it does a chat without configuration); a failure
  changes nothing.
\<close>

definition remove_tag :: "pystr \<Rightarrow> int \<Rightarrow> tag_db \<Rightarrow> report \<times> tag_db" where
  "remove_tag chat_id index db =
     (case map_of db chat_id of
        None \<Rightarrow> (Failed NotFoundError, db)
      | Some cfg \<Rightarrow>
          if index < 0 \<or> int (length (tags cfg)) \<le> index then (Failed NotFoundError, db)
          else
            (TagRemoved,
             AList.update chat_id
               (cfg\<lparr>tags := take (nat index) (tags cfg) @ drop (Suc (nat index)) (tags cfg)\<rparr>)
               db))"

text \<open>Modelled from the spec: \<open>list_tags\<close> is read-only, the empty sequence if no config exists.\<close>

definition list_tags :: "pystr \<Rightarrow> tag_db \<Rightarrow> pystr list" where
  "list_tags chat_id db = (case map_of db chat_id of None \<Rightarrow> [] | Some cfg \<Rightarrow> tags cfg)"

text \<open>
  Modelled from the spec: \<open>get_status\<close> returns \<open>(has_config, is_suspended)\<close>; a config
  whose tag list is empty counts as no configuration, and then \<open>is_suspended\<close> is false.
\<close>

definition get_status :: "pystr \<Rightarrow> tag_db \<Rightarrow> bool \<times> bool" where
  "get_status chat_id db =
     (case map_of db chat_id of
        None \<Rightarrow> (False, False)
      | Some cfg \<Rightarrow> if tags cfg = [] then (False, False) else (True, suspended cfg))"

text \<open>
  Modelled from the spec: \<open>suspend\<close> and \<open>resume\<close> set the flag whatever it was and
  report success; a chat without configuration is a \<open>NotFoundError\<close>.
\<close>

definition suspend :: "pystr \<Rightarrow> tag_db \<Rightarrow> report \<times> tag_db" where
  "suspend chat_id db =
     (case map_of db chat_id of
        None \<Rightarrow> (Failed NotFoundError, db)
      | Some cfg \<Rightarrow> (SearchSuspended, AList.update chat_id (cfg\<lparr>suspended := True\<rparr>) db))"

text \<open>Modelled from the spec: \<open>resume\<close>, the counterpart of \<open>suspend\<close>.\<close>

definition resume :: "pystr \<Rightarrow> tag_db \<Rightarrow> report \<times> tag_db" where
  "resume chat_id db =
     (case map_of db chat_id of
        None \<Rightarrow> (Failed NotFoundError, db)
      | Some cfg \<Rightarrow> (SearchResumed, AList.update chat_id (cfg\<lparr>suspended := False\<rparr>) db))"

text \<open>
  Modelled from the spec: a report as the pair \<open>(success, message)\<close> that the functions
  of the store return (section 6).
\<close>

definition told :: "(report \<Rightarrow> pystr) \<Rightarrow> report \<times> tag_db \<Rightarrow> (bool \<times> pystr) \<times> tag_db" where
  "told says res = ((is_ok (fst res), says (fst res)), snd res)"

text \<open>
  Modelled from the spec: the six functions the handlers import, each returning
  \<open>(success, message)\<close> or the value itself (section 6), over the store above.
\<close>

definition specified_store :: "(report \<Rightarrow> pystr) \<Rightarrow> (pystr \<Rightarrow> bool) \<Rightarrow> tag_db tag_store" where
  "specified_store says well_formed =
     \<lparr>add_random_tag = (\<lambda>chat_id session tag_text db.
         told says (add_tag well_formed chat_id session tag_text db)),
      remove_random_tag = (\<lambda>chat_id index db. told says (remove_tag chat_id index db)),
      get_random_tags = (\<lambda>chat_id db. (map (\<lambda>t. \<lparr>tag = t\<rparr>) (list_tags chat_id db), db)),
      suspend_random_search = (\<lambda>chat_id db. told says (suspend chat_id db)),
      resume_random_search = (\<lambda>chat_id db. told says (resume chat_id db)),
      get_random_search_status = (\<lambda>chat_id db. (get_status chat_id db, db))\<rparr>"

section \<open>The Scheduling Core, as specified\<close>

text \<open>
  Modelled from the spec: \<open>utils/random_search.py\<close> is not among the sources. The core
  of sections 3 and 4.2 owns the FIFO work queue, the table of next fire times and the
  execution locks (a lock is created on first need; the flag says whether it is held).
  A chat is Queued when it is in the work queue and Executing when its lock is held.
\<close>

record scheduler =
  work_queue :: "pystr list"
  next_fire_at :: "pystr \<rightharpoonup> nat"
  lock_held :: "pystr \<rightharpoonup> bool"

text \<open>Modelled from the spec: \<open>in_queue\<close>, the chat is present in the work queue (Queued).\<close>

definition in_queue :: "scheduler \<Rightarrow> pystr \<Rightarrow> bool" where
  "in_queue s chat_id = (chat_id \<in> set (work_queue s))"

text \<open>Modelled from the spec: the execution lock of the chat is held (Executing).\<close>

definition executing :: "scheduler \<Rightarrow> pystr \<Rightarrow> bool" where
  "executing s chat_id = (lock_held s chat_id = Some True)"

text \<open>Modelled from the spec: the work queue is FIFO; a chat is added at its end.\<close>

definition enqueue :: "pystr \<Rightarrow> scheduler \<Rightarrow> scheduler" where
  "enqueue chat_id s = s\<lparr>work_queue := work_queue s @ [chat_id]\<rparr>"

text \<open>
  Modelled from the spec: \<open>force_execute_group\<close> enqueues the chat at once, whatever
  its timer, and returns true; it returns false and enqueues nothing if the chat is
  already Queued or Executing.
\<close>

definition core_force_execute_group :: "pystr \<Rightarrow> scheduler \<Rightarrow> bool \<times> scheduler" where
  "core_force_execute_group chat_id s =
     (if in_queue s chat_id \<or> executing s chat_id then (False, s)
      else (True, enqueue chat_id s))"

text \<open>
  Modelled from the spec: one coarse tick scans all chats of the store and enqueues
  those that are not suspended, have a tag, whose \<open>next_fire_at\<close> has elapsed and that
  are not in the queue yet.
\<close>

definition tick_chat :: "nat \<Rightarrow> tag_db \<Rightarrow> pystr \<Rightarrow> scheduler \<Rightarrow> scheduler" where
  "tick_chat now db chat_id s =
     (case map_of db chat_id of
        None \<Rightarrow> s
      | Some cfg \<Rightarrow>
          if \<not> suspended cfg \<and> tags cfg \<noteq> []
             \<and> (case next_fire_at s chat_id of None \<Rightarrow> False | Some t \<Rightarrow> t \<le> now)
             \<and> \<not> in_queue s chat_id
          then enqueue chat_id s
          else s)"

text \<open>Modelled from the spec: the tick visits the chats of the store one after the other.\<close>

definition tick :: "nat \<Rightarrow> tag_db \<Rightarrow> scheduler \<Rightarrow> scheduler" where
  "tick now db s = fold (tick_chat now db) (map fst db) s"

text \<open>
  Modelled from the spec: what the service holds beside the scheduler and a snapshot
  reads: whether the queue processor task is running (section 4.2), the chats the
  service counts as active (section 6 names \<open>active_groups: set of chat_id\<close> and says no
  more) and the chats for which an execution lock has been created (the keys of
  \<open>ExecutionLocks\<close>, created on first need and never removed).
\<close>

record service_state =
  sched :: scheduler
  processor_alive :: bool
  active_chats :: "pystr list"
  lock_chats :: "pystr list"

text \<open>
  Modelled from the spec: \<open>get_queue_status\<close> returns the point-in-time snapshot
  \<open>{queue_size, is_queue_processor_running, active_groups, execution_locks}\<close>, the last a
  mapping from chat id to lock-held flag. It reads sizes and keys only: it acquires no
  lock and waits for none, so it returns in every state and leaves the state as it is.
\<close>

definition core_get_queue_status :: "service_state \<Rightarrow> queue_status \<times> service_state" where
  "core_get_queue_status u =
     (\<lparr>queue_size = int (length (work_queue (sched u))),
       is_queue_processor_running = processor_alive u,
       active_groups = active_chats u,
       execution_locks = map (\<lambda>chat_id. (chat_id, executing (sched u) chat_id)) (lock_chats u)\<rparr>,
      u)"

section \<open>Stand-ins for the examples\<close>

text \<open>
  The handlers are run on concrete inputs below. \<open>example_says\<close> words a success as
  \<open>ok\<close> and a failure as \<open>!\<close>; \<open>example_event\<close> is a message of sender \<open>u1\<close> in group
  \<open>g1\<close>; \<open>example_validate\<close> rejects the text \<open>bad\<close> with the message \<open>bad!\<close>;
  \<open>example_db\<close> holds the tags \<open>cat\<close> and \<open>dog\<close> for \<open>g1\<close>, with the given
  suspended flag; \<open>canned_store\<close> answers every status request with the given pair, has no tags
  and changes nothing; \<open>canned_service\<close> returns the given snapshot and the given answer
  to a forced execution and changes nothing; \<open>example_scheduler\<close> is a core with the
  given queue in which \<open>g1\<close> is due from time 0 on and no lock is held;
  \<open>queueing_service\<close> forces an execution as the specified core does;
  \<open>busy_service_state\<close> is a service in which \<open>g1\<close> is queued and executing, its lock
  held; \<open>observing_service\<close> takes its snapshot as the specified core does.
\<close>

fun example_says :: "report \<Rightarrow> pystr" where
  "example_says (Failed f) = [0x21]"
| "example_says r = [0x6F, 0x6B]"

definition example_event :: event where
  "example_event =
     \<lparr>get_group_id = Some [0x67, 0x31], get_sender_id = [0x75, 0x31],
      unified_msg_origin = [0x73, 0x31]\<rparr>"

definition canned_store :: "bool \<times> bool \<Rightarrow> 'w tag_store" where
  "canned_store status =
     \<lparr>add_random_tag = (\<lambda>chat_id session tag_text w. ((True, []), w)),
      remove_random_tag = (\<lambda>chat_id index w. ((True, []), w)),
      get_random_tags = (\<lambda>chat_id w. ([], w)),
      suspend_random_search = (\<lambda>chat_id w. ((True, []), w)),
      resume_random_search = (\<lambda>chat_id w. ((True, []), w)),
      get_random_search_status = (\<lambda>chat_id w. (status, w))\<rparr>"

definition canned_service :: "queue_status \<Rightarrow> bool \<Rightarrow> 'w random_search_service" where
  "canned_service status answer =
     \<lparr>suspend_group_search = (\<lambda>chat_id w. w),
      resume_group_search = (\<lambda>chat_id w. w),
      get_queue_status = (\<lambda>w. (status, w)),
      force_execute_group = (\<lambda>chat_id w. (answer, w))\<rparr>"

definition example_validate :: "pystr \<Rightarrow> tag_result" where
  "example_validate t =
     \<lparr>success = (t \<noteq> [0x62, 0x61, 0x64]), error_message = [0x62, 0x61, 0x64, 0x21]\<rparr>"

definition example_db :: "bool \<Rightarrow> tag_db" where
  "example_db flag =
     [([0x67, 0x31],
       \<lparr>session_id = [0x73, 0x31], tags = [[0x63, 0x61, 0x74], [0x64, 0x6F, 0x67]],
        suspended = flag\<rparr>)]"

definition empty_status :: queue_status where
  "empty_status =
     \<lparr>queue_size = 0, is_queue_processor_running = True, active_groups = [],
      execution_locks = []\<rparr>"

definition example_scheduler :: "pystr list \<Rightarrow> scheduler" where
  "example_scheduler q =
     \<lparr>work_queue = q, next_fire_at = [[0x67, 0x31] \<mapsto> 0], lock_held = Map.empty\<rparr>"

definition queueing_service :: "scheduler random_search_service" where
  "queueing_service =
     \<lparr>suspend_group_search = (\<lambda>chat_id s. s),
      resume_group_search = (\<lambda>chat_id s. s),
      get_queue_status = (\<lambda>s. (empty_status, s)),
      force_execute_group = core_force_execute_group\<rparr>"

definition busy_service_state :: service_state where
  "busy_service_state =
     \<lparr>sched = \<lparr>work_queue = [[0x67, 0x31]], next_fire_at = Map.empty,
               lock_held = [[0x67, 0x31] \<mapsto> True]\<rparr>,
      processor_alive = True,
      active_chats = [[0x67, 0x31]],
      lock_chats = [[0x67, 0x31]]\<rparr>"

definition observing_service :: "service_state random_search_service" where
  "observing_service =
     \<lparr>suspend_group_search = (\<lambda>chat_id u. u),
      resume_group_search = (\<lambda>chat_id u. u),
      get_queue_status = core_get_queue_status,
      force_execute_group = (\<lambda>chat_id u. (False, u))\<rparr>"

section \<open>Facts about the string functions\<close>

lemma py_decimal_ascii: "d < 10 \<Longrightarrow> py_decimal (0x30 + d) = Some d"
  by (simp add: py_decimal_def decimal_zeros_def)

lemma decimal_value_append:
  "decimal_value a (xs @ ys) =
     (case decimal_value a xs of Inl e \<Rightarrow> Inl e | Inr b \<Rightarrow> decimal_value b ys)"
  by (induction xs arbitrary: a) (simp_all split: option.splits)

lemma decimal_value_str_nat: "decimal_value 0 (str_nat n) = Inr n"
proof (induction n rule: str_nat.induct)
  case (1 n)
  show ?case
  proof (cases "n < 10")
    case True
    then show ?thesis
      by (subst str_nat.simps) (simp add: py_decimal_ascii)
  next
    case False
    have m: "n mod 10 < 10" by simp
    from False "1.IH" have "decimal_value 0 (str_nat (n div 10)) = Inr (n div 10)" by simp
    with False show ?thesis
      by (subst str_nat.simps) (simp add: decimal_value_append py_decimal_ascii [OF m])
  qed
qed

lemma str_nat_nonempty: "str_nat n \<noteq> []"
  by (subst str_nat.simps) simp

text \<open>Every index of at most 4300 digits has a string that \<open>int\<close> reads back as that index.\<close>

lemma py_int_str_nat:
  "length (str_nat n) \<le> int_max_str_digits \<Longrightarrow> py_int (str_nat n) = Inr (int n)"
  by (simp add: py_int_def str_nat_nonempty decimal_value_str_nat)

lemma str_nat_inj: "str_nat a = str_nat b \<Longrightarrow> a = b"
  by (metis decimal_value_str_nat sum.inject(2))

lemma str_nat_digits: "c \<in> set (str_nat n) \<Longrightarrow> 0x30 \<le> c \<and> c \<le> 0x39"
proof (induction n rule: str_nat.induct)
  case (1 n)
  show ?case
  proof (cases "n < 10")
    case True
    with "1.prems" show ?thesis
      by (subst (asm) str_nat.simps) simp
  next
    case False
    have "n mod 10 < 10" by simp
    then have "0x30 + n mod 10 \<le> 0x39" by linarith
    with False "1.prems" "1.IH" show ?thesis
      by (subst (asm) str_nat.simps) auto
  qed
qed

lemma str_nat_free: "c < 0x30 \<Longrightarrow> c \<notin> set (str_nat n)"
  using str_nat_digits [of c n] by auto

lemma py_str_length: "py_str (int n) = str_nat n"
  by (simp add: py_str_def)

lemma py_str_inj: "py_str a = py_str b \<Longrightarrow> a = b"
proof -
  have neg: "0x2D # str_nat m \<noteq> str_nat k" for m k
  proof
    assume "0x2D # str_nat m = str_nat k"
    then have "0x2D \<in> set (str_nat k)" by (metis list.set_intros(1))
    then show False using str_nat_free [of "0x2D" k] by simp
  qed
  assume h: "py_str a = py_str b"
  show ?thesis
  proof (cases "a < 0"; cases "b < 0")
    assume "a < 0" "b < 0"
    with h have "nat (- a) = nat (- b)" by (simp add: py_str_def str_nat_inj)
    with \<open>a < 0\<close> \<open>b < 0\<close> show ?thesis by simp
  next
    assume "a < 0" "\<not> b < 0"
    with h neg show ?thesis by (simp add: py_str_def)
  next
    assume "\<not> a < 0" "b < 0"
    with h neg [of "nat (- b)" "nat a"] show ?thesis by (simp add: py_str_def)
  next
    assume "\<not> a < 0" "\<not> b < 0"
    with h have "nat a = nat b" by (simp add: py_str_def str_nat_inj)
    with \<open>\<not> a < 0\<close> \<open>\<not> b < 0\<close> show ?thesis by simp
  qed
qed

lemma py_str_free: "c < 0x2D \<Longrightarrow> c \<notin> set (py_str i)"
  using str_nat_free [of c] by (auto simp: py_str_def)

lemma decimal_value_digits: "decimal_value a s = Inr m \<Longrightarrow> list_all isdigit_char s"
proof (induction s arbitrary: a)
  case Nil
  then show ?case by simp
next
  case (Cons c cs)
  show ?case
  proof (cases "py_decimal c")
    case None
    with Cons.prems show ?thesis by simp
  next
    case (Some d)
    with Cons.prems have "decimal_value (10 * a + d) cs = Inr m" by simp
    then have "list_all isdigit_char cs" by (rule Cons.IH)
    moreover from Some have "isdigit_char c" by (simp add: isdigit_char_def)
    ultimately show ?thesis by simp
  qed
qed

lemma py_int_isdigit: "py_int s = Inr n \<Longrightarrow> isdigit s"
  unfolding py_int_def isdigit_def
  by (cases "s = []"; cases "int_max_str_digits < length s"; cases "decimal_value 0 s")
    (simp_all add: decimal_value_digits)

lemma py_int_zero: "py_int [0x30] = Inr 0"
  by (simp add: py_int_def int_max_str_digits_def py_decimal_def decimal_zeros_def)

lemma py_int_one: "py_int [0x31] = Inr 1"
  by (simp add: py_int_def int_max_str_digits_def py_decimal_def decimal_zeros_def)

lemma py_int_three: "py_int [0x33] = Inr 3"
  by (simp add: py_int_def int_max_str_digits_def py_decimal_def decimal_zeros_def)

lemma split_at_first:
  "x \<notin> set a \<Longrightarrow> x \<notin> set b \<Longrightarrow> a @ x # r = b @ x # r' \<Longrightarrow> a = b \<and> r = r'"
proof (induction a arbitrary: b)
  case Nil
  then show ?case by (cases b) auto
next
  case (Cons h a)
  then show ?case by (cases b) auto
qed

lemma example_chat: "chat_id_of example_event = [0x67, 0x31]"
  by (simp add: chat_id_of_def example_event_def)

lemma decimal_value_non_decimal:
  "\<exists>c \<in> set s. py_decimal c = None \<Longrightarrow> decimal_value a s = Inl ValueError"
proof (induction s arbitrary: a)
  case Nil
  then show ?case by simp
next
  case (Cons c cs)
  show ?case
  proof (cases "py_decimal c")
    case None
    then show ?thesis by simp
  next
    case (Some d)
    with Cons.prems have "\<exists>c \<in> set cs. py_decimal c = None" by auto
    then have "decimal_value (10 * a + d) cs = Inl ValueError" by (rule Cons.IH)
    with Some show ?thesis by simp
  qed
qed

lemma py_int_non_decimal: "\<exists>c \<in> set s. py_decimal c = None \<Longrightarrow> py_int s = Inl ValueError"
  by (simp add: py_int_def decimal_value_non_decimal)

lemma py_int_too_long: "int_max_str_digits < length s \<Longrightarrow> py_int s = Inl ValueError"
  by (simp add: py_int_def)

lemma isdigit_char_nine: "isdigit_char 0x39"
  by (simp add: isdigit_char_def py_decimal_def decimal_zeros_def)

lemma isdigit_nines: "0 < k \<Longrightarrow> isdigit (replicate k 0x39)"
  by (simp add: isdigit_def list_all_iff isdigit_char_nine)

lemma decimal_value_nines: "\<exists>m. decimal_value a (replicate k 0x39) = Inr m \<and> a \<le> m"
proof (induction k arbitrary: a)
  case 0
  show ?case by simp
next
  case (Suc k)
  have nine: "py_decimal 0x39 = Some 9"
    by (simp add: py_decimal_def decimal_zeros_def)
  from Suc.IH [of "10 * a + 9"]
  obtain m where "decimal_value (10 * a + 9) (replicate k 0x39) = Inr m" and "10 * a + 9 \<le> m"
    by blast
  then have "decimal_value a (replicate (Suc k) 0x39) = Inr m \<and> a \<le> m"
    by (simp add: nine)
  then show ?case by blast
qed

lemma value_of_nines:
  assumes "0 < k"
  shows "\<exists>m. decimal_value 0 (replicate k 0x39) = Inr m \<and> 9 \<le> m"
proof -
  from assms obtain j where k: "k = Suc j" by (cases k) auto
  have nine: "py_decimal 0x39 = Some 9"
    by (simp add: py_decimal_def decimal_zeros_def)
  from decimal_value_nines [of 9 j]
  obtain m where "decimal_value 9 (replicate j 0x39) = Inr m" and "9 \<le> m" by blast
  then have "decimal_value 0 (replicate (Suc j) 0x39) = Inr m \<and> 9 \<le> m"
    by (simp add: nine)
  with k show ?thesis by blast
qed

text \<open>
  The call \<open>int(index)\<close> of the remove-tag handler is not inside a \<open>try\<close>: when the guard
  passes and \<open>int\<close> raises, the handler raises, yields nothing and calls nothing.
\<close>

lemma del_int_raises:
  "isdigit index \<Longrightarrow> py_int index = Inl e \<Longrightarrow>
     pixiv_random_del db ev index w = \<lparr>world = w, yielded = [], calls = [], raised = Some e\<rparr>"
  by (simp add: pixiv_random_del_def)

section \<open>Properties\<close>

subsection \<open>Removing a tag by its displayed index\<close>

lemma del_parsed:
  "py_int index = Inr n \<Longrightarrow>
     pixiv_random_del (specified_store says wfd) ev index db =
       \<lparr>world = snd (remove_tag (chat_id_of ev) (n - 1) db),
        yielded = [says (fst (remove_tag (chat_id_of ev) (n - 1) db))],
        calls = [RemoveRandomTag (chat_id_of ev) (n - 1)], raised = None\<rparr>"
  by (simp add: pixiv_random_del_def py_int_isdigit specified_store_def told_def Let_def)

lemma remove_tag_first:
  "list_tags c db = t # ts \<Longrightarrow>
     fst (remove_tag c 0 db) = TagRemoved \<and> list_tags c (snd (remove_tag c 0 db)) = ts"
  by (auto simp: list_tags_def remove_tag_def update_conv' split: option.splits)

lemma remove_tag_out_of_range:
  "index < 0 \<or> int (length (list_tags c db)) \<le> index \<Longrightarrow>
     remove_tag c index db = (Failed NotFoundError, db)"
  by (auto simp: list_tags_def remove_tag_def split: option.splits)

text \<open>
  Against the specified store, and for every index string that \<open>int\<close> accepts: the
  index string \<open>1\<close> removes the first element of the stored 0-based list (the handler
  passes index 0 and the store reports the removal); an index string whose value \<open>n\<close>
  is 0 or greater than the length of the list reaches the store as \<open>n - 1\<close>, which is
  negative or not below the length: the store fails with \<open>NotFoundError\<close>, the handler
  yields the wording of that failure, and the stored list is unchanged.
\<close>

lemma del_index_translation:
  "(list_tags (chat_id_of ev) db = t # ts \<longrightarrow>
      list_tags (chat_id_of ev)
        (world (pixiv_random_del (specified_store says wfd) ev [0x31] db)) = ts
      \<and> yielded (pixiv_random_del (specified_store says wfd) ev [0x31] db) = [says TagRemoved]
      \<and> calls (pixiv_random_del (specified_store says wfd) ev [0x31] db)
          = [RemoveRandomTag (chat_id_of ev) 0])
   \<and> (py_int index = Inr n \<and> (n = 0 \<or> int (length (list_tags (chat_id_of ev) db)) < n) \<longrightarrow>
      remove_tag (chat_id_of ev) (n - 1) db = (Failed NotFoundError, db)
      \<and> pixiv_random_del (specified_store says wfd) ev index db =
          \<lparr>world = db, yielded = [says (Failed NotFoundError)],
           calls = [RemoveRandomTag (chat_id_of ev) (n - 1)], raised = None\<rparr>)"
proof (intro conjI impI)
  assume h: "list_tags (chat_id_of ev) db = t # ts"
  note d = del_parsed [OF py_int_one, of says wfd ev db]
  from remove_tag_first [OF h] d
  show "list_tags (chat_id_of ev)
          (world (pixiv_random_del (specified_store says wfd) ev [0x31] db)) = ts"
    by simp
  from remove_tag_first [OF h] d
  show "yielded (pixiv_random_del (specified_store says wfd) ev [0x31] db) = [says TagRemoved]"
    by simp
  from d show "calls (pixiv_random_del (specified_store says wfd) ev [0x31] db)
                 = [RemoveRandomTag (chat_id_of ev) 0]"
    by simp
next
  assume h: "py_int index = Inr n \<and> (n = 0 \<or> int (length (list_tags (chat_id_of ev) db)) < n)"
  then have "n - 1 < 0 \<or> int (length (list_tags (chat_id_of ev) db)) \<le> n - 1"
    by auto
  then show r: "remove_tag (chat_id_of ev) (n - 1) db = (Failed NotFoundError, db)"
    by (rule remove_tag_out_of_range)
  from h have "py_int index = Inr n" by simp
  from del_parsed [OF this, of says wfd ev db] r
  show "pixiv_random_del (specified_store says wfd) ev index db =
          \<lparr>world = db, yielded = [says (Failed NotFoundError)],
           calls = [RemoveRandomTag (chat_id_of ev) (n - 1)], raised = None\<rparr>"
    by simp
qed

lemma del_index_translation_example:
  "list_tags [0x67, 0x31]
     (world (pixiv_random_del (specified_store example_says (\<lambda>t. True)) example_event [0x31]
        (example_db False))) = [[0x64, 0x6F, 0x67]]
   \<and> pixiv_random_del (specified_store example_says (\<lambda>t. True)) example_event [0x30]
        (example_db False) =
       \<lparr>world = example_db False, yielded = [[0x21]],
        calls = [RemoveRandomTag [0x67, 0x31] (- 1)], raised = None\<rparr>
   \<and> pixiv_random_del (specified_store example_says (\<lambda>t. True)) example_event [0x33]
        (example_db False) =
       \<lparr>world = example_db False, yielded = [[0x21]],
        calls = [RemoveRandomTag [0x67, 0x31] 2], raised = None\<rparr>"
proof -
  have l: "list_tags (chat_id_of example_event) (example_db False)
             = [0x63, 0x61, 0x74] # [[0x64, 0x6F, 0x67]]"
    by (simp add: example_chat list_tags_def example_db_def)
  have z: "py_int [0x30] = Inr 0 \<and>
           ((0::int) = 0 \<or> int (length (list_tags (chat_id_of example_event) (example_db False))) < 0)"
    by (simp add: py_int_zero)
  have g: "py_int [0x33] = Inr 3 \<and>
           ((3::int) = 0 \<or> int (length (list_tags (chat_id_of example_event) (example_db False))) < 3)"
    by (simp add: py_int_three l)
  from del_index_translation [of example_event "example_db False" "[0x63, 0x61, 0x74]"
        "[[0x64, 0x6F, 0x67]]" example_says "\<lambda>t. True" "[0x30]" 0] l z
       del_index_translation [of example_event "example_db False" "[0x63, 0x61, 0x74]"
        "[[0x64, 0x6F, 0x67]]" example_says "\<lambda>t. True" "[0x33]" 3] g
  show ?thesis by (simp add: example_chat)
qed

text \<open>
  C1. The claim is that an index of 0 or any index greater than the length of the list
  ends in a \<open>NotFoundError\<close>-class failure. For an index of more than 4300 digits it does
  not: the string of 4301 nines passes \<open>isdigit\<close> and stands for a number greater than
  the length of the list (two tags here), yet \<open>int\<close> refuses it with \<open>ValueError\<close>, which
  nothing catches: whatever the store, the handler raises, yields no reply and never
  calls \<open>remove_random_tag\<close>.
\<close>

theorem del_long_index_uncaught:
  "isdigit (replicate 4301 0x39)
   \<and> (\<exists>n. decimal_value 0 (replicate 4301 0x39) = Inr n
          \<and> length (list_tags [0x67, 0x31] (example_db False)) < n)
   \<and> pixiv_random_del db ev (replicate 4301 0x39) w =
       \<lparr>world = w, yielded = [], calls = [], raised = Some ValueError\<rparr>"
proof (intro conjI)
  have pos: "0 < (4301::nat)" by simp
  show d: "isdigit (replicate 4301 0x39)"
    using pos by (rule isdigit_nines)
  from value_of_nines [OF pos]
  obtain m where m: "decimal_value 0 (replicate 4301 0x39) = Inr m" and "9 \<le> m" by blast
  moreover have "length (list_tags [0x67, 0x31] (example_db False)) = 2"
    by (simp add: list_tags_def example_db_def)
  ultimately have "decimal_value 0 (replicate 4301 0x39) = Inr m
      \<and> length (list_tags [0x67, 0x31] (example_db False)) < m"
    by (simp only: m) simp
  then show "\<exists>n. decimal_value 0 (replicate 4301 0x39) = Inr n
          \<and> length (list_tags [0x67, 0x31] (example_db False)) < n"
    by (rule exI)
  have "int_max_str_digits < length (replicate 4301 (0x39::nat))"
    by (simp only: length_replicate int_max_str_digits_def)
  then have "py_int (replicate 4301 0x39) = Inl ValueError"
    by (rule py_int_too_long)
  with d show "pixiv_random_del db ev (replicate 4301 0x39) w =
       \<lparr>world = w, yielded = [], calls = [], raised = Some ValueError\<rparr>"
    by (rule del_int_raises)
qed

subsection \<open>A non-numeric index\<close>

text \<open>
  Where \<open>isdigit\<close> fails (the empty string included) the remove-tag handler yields the
  usage prompt and nothing else, raises nothing, makes no call on the store and leaves
  the state as it was.
\<close>

lemma del_rejects_non_digits:
  "\<not> isdigit index \<Longrightarrow>
     pixiv_random_del db ev index w =
       \<lparr>world = w, yielded = [msg_del_usage], calls = [], raised = None\<rparr>"
  by (simp add: pixiv_random_del_def)

text \<open>
  C7. The claim is that every non-numeric index is answered with the usage prompt. The
  guard of the handler is \<open>str.isdigit\<close>, which also accepts digits that are no decimal
  digits: the superscript two, the circled one and the string of \<open>1\<close> and a superscript
  two all pass the guard, \<open>int\<close> raises \<open>ValueError\<close> on each, nothing catches it, and
  the handler raises without any reply to the user.
\<close>

theorem del_non_decimal_index_uncaught:
  "(isdigit [0xB2] \<and> py_int [0xB2] = Inl ValueError
      \<and> pixiv_random_del db ev [0xB2] w =
          \<lparr>world = w, yielded = [], calls = [], raised = Some ValueError\<rparr>)
   \<and> (isdigit [0x2460] \<and> py_int [0x2460] = Inl ValueError
      \<and> pixiv_random_del db ev [0x2460] w =
          \<lparr>world = w, yielded = [], calls = [], raised = Some ValueError\<rparr>)
   \<and> (isdigit [0x31, 0xB2] \<and> py_int [0x31, 0xB2] = Inl ValueError
      \<and> pixiv_random_del db ev [0x31, 0xB2] w =
          \<lparr>world = w, yielded = [], calls = [], raised = Some ValueError\<rparr>)"
proof -
  have d1: "isdigit [0xB2]" and d2: "isdigit [0x2460]" and d3: "isdigit [0x31, 0xB2]"
    by (simp_all add: isdigit_def isdigit_char_def py_decimal_def decimal_zeros_def
        digit_only_ranges_def)
  have n1: "py_decimal 0xB2 = None" and n2: "py_decimal 0x2460 = None"
    by (simp_all add: py_decimal_def decimal_zeros_def)
  have i1: "py_int [0xB2] = Inl ValueError"
    by (rule py_int_non_decimal) (simp add: n1)
  have i2: "py_int [0x2460] = Inl ValueError"
    by (rule py_int_non_decimal) (simp add: n2)
  have i3: "py_int [0x31, 0xB2] = Inl ValueError"
    by (rule py_int_non_decimal) (simp add: n1)
  from d1 i1 d2 i2 d3 i3
       del_int_raises [OF d1 i1, of db ev w] del_int_raises [OF d2 i2, of db ev w]
       del_int_raises [OF d3 i3, of db ev w]
  show ?thesis by blast
qed

subsection \<open>Adding a tag\<close>

text \<open>
  C6. The add command never raises, and it fails before the store is reached when the
  text is empty or malformed: if the stripped text is empty the handler yields the
  usage prompt, if the validator rejects the stripped text it yields the validator's
  error message, and in both cases it makes no call (so \<open>add_random_tag\<close> is not
  invoked) and leaves the state; otherwise it calls \<open>add_random_tag\<close> once, with the
  chat, the session and the stripped text, and yields the status string that call
  returned.
\<close>

theorem add_validates_first:
  "raised (pixiv_random_add validate db ev arg w) = None
   \<and> (strip arg = [] \<longrightarrow>
        pixiv_random_add validate db ev arg w =
          \<lparr>world = w, yielded = [msg_add_usage], calls = [], raised = None\<rparr>)
   \<and> (strip arg \<noteq> [] \<and> \<not> success (validate (strip arg)) \<longrightarrow>
        pixiv_random_add validate db ev arg w =
          \<lparr>world = w, yielded = [error_message (validate (strip arg))], calls = [],
           raised = None\<rparr>)
   \<and> (strip arg \<noteq> [] \<and> success (validate (strip arg)) \<longrightarrow>
        pixiv_random_add validate db ev arg w =
          \<lparr>world = snd (add_random_tag db (chat_id_of ev) (unified_msg_origin ev) (strip arg) w),
           yielded = [snd (fst (add_random_tag db (chat_id_of ev) (unified_msg_origin ev)
                                  (strip arg) w))],
           calls = [AddRandomTag (chat_id_of ev) (unified_msg_origin ev) (strip arg)],
           raised = None\<rparr>)"
  by (simp add: pixiv_random_add_def Let_def split: prod.splits)

theorem add_validates_first_witness:
  "pixiv_random_add example_validate (specified_store example_says (\<lambda>t. True)) example_event
       [0x20, 0x3000] [] =
     \<lparr>world = [], yielded = [msg_add_usage], calls = [], raised = None\<rparr>
   \<and> pixiv_random_add example_validate (specified_store example_says (\<lambda>t. True)) example_event
       [0x20, 0x62, 0x61, 0x64] [] =
     \<lparr>world = [], yielded = [[0x62, 0x61, 0x64, 0x21]], calls = [], raised = None\<rparr>
   \<and> pixiv_random_add example_validate (specified_store example_says (\<lambda>t. True)) example_event
       [0x20, 0x63, 0x61, 0x74, 0xA] [] =
     \<lparr>world = [([0x67, 0x31],
                 \<lparr>session_id = [0x73, 0x31], tags = [[0x63, 0x61, 0x74]], suspended = False\<rparr>)],
      yielded = [[0x6F, 0x6B]],
      calls = [AddRandomTag [0x67, 0x31] [0x73, 0x31] [0x63, 0x61, 0x74]], raised = None\<rparr>"
proof -
  have s1: "strip [0x20, 0x3000] = []"
    by (simp add: strip_def isspace_char_def)
  have s2: "strip [0x20, 0x62, 0x61, 0x64] = [0x62, 0x61, 0x64]"
    by (simp add: strip_def isspace_char_def)
  have s3: "strip [0x20, 0x63, 0x61, 0x74, 0xA] = [0x63, 0x61, 0x74]"
    by (simp add: strip_def isspace_char_def)
  have u: "unified_msg_origin example_event = [0x73, 0x31]"
    by (simp add: example_event_def)
  have a: "add_random_tag (specified_store example_says (\<lambda>t. True)) [0x67, 0x31] [0x73, 0x31]
             [0x63, 0x61, 0x74] [] =
           (((True, [0x6F, 0x6B])),
            [([0x67, 0x31],
              \<lparr>session_id = [0x73, 0x31], tags = [[0x63, 0x61, 0x74]], suspended = False\<rparr>)])"
    by (simp add: specified_store_def told_def add_tag_def)
  from add_validates_first [of example_validate "specified_store example_says (\<lambda>t. True)"
        example_event "[0x20, 0x3000]" "[]"]
       add_validates_first [of example_validate "specified_store example_says (\<lambda>t. True)"
        example_event "[0x20, 0x62, 0x61, 0x64]" "[]"]
       add_validates_first [of example_validate "specified_store example_says (\<lambda>t. True)"
        example_event "[0x20, 0x63, 0x61, 0x74, 0xA]" "[]"]
  show ?thesis
    by (simp add: s1 s2 s3 u a example_chat example_validate_def)
qed

subsection \<open>Listing the tags\<close>

lemma render_tags_lines:
  "render_tags i rows msg =
     msg @ concat (map (\<lambda>k. str_nat (i + k + 1) @ [0x2E, 0x20] @ tag (rows ! k) @ [0xA])
                    [0..<length rows])"
proof (induction rows arbitrary: i msg)
  case Nil
  show ?case by simp
next
  case (Cons r rs)
  have "[0..<length (r # rs)] = 0 # map Suc [0..<length rs]"
    by (simp add: upt_conv_Cons map_Suc_upt del: upt_Suc)
  then show ?case
    by (simp add: Cons.IH comp_def)
qed

text \<open>
  C8. The list command only reads: its one call is \<open>get_random_tags\<close> for the chat, the
  state it leaves is the state that call leaves, and it raises nothing. When the store
  returns the empty sequence (the answer for a chat without configuration) it yields
  the no-tags message; otherwise it yields the header followed by one line per stored
  tag, in the stored order, the line of the tag at position \<open>k\<close> (from 0) being numbered
  \<open>k + 1\<close>.
\<close>

theorem list_renders_in_order:
  "calls (pixiv_random_list db ev args w) = [GetRandomTags (chat_id_of ev)]
   \<and> world (pixiv_random_list db ev args w) = snd (get_random_tags db (chat_id_of ev) w)
   \<and> raised (pixiv_random_list db ev args w) = None
   \<and> (fst (get_random_tags db (chat_id_of ev) w) = [] \<longrightarrow>
        yielded (pixiv_random_list db ev args w) = [msg_no_tags])
   \<and> (fst (get_random_tags db (chat_id_of ev) w) = rows \<and> rows \<noteq> [] \<longrightarrow>
        yielded (pixiv_random_list db ev args w) =
          [msg_list_header
           @ concat (map (\<lambda>k. str_nat (k + 1) @ [0x2E, 0x20] @ tag (rows ! k) @ [0xA])
                      [0..<length rows])])"
proof -
  obtain rs w' where g: "get_random_tags db (chat_id_of ev) w = (rs, w')"
    by (metis surj_pair)
  show ?thesis
    by (simp add: pixiv_random_list_def g render_tags_lines Let_def)
qed

theorem list_renders_in_order_witness:
  "yielded (pixiv_random_list (specified_store example_says (\<lambda>t. True)) example_event []
       (example_db False)) =
     [msg_list_header
      @ [0x31, 0x2E, 0x20, 0x63, 0x61, 0x74, 0xA, 0x32, 0x2E, 0x20, 0x64, 0x6F, 0x67, 0xA]]
   \<and> world (pixiv_random_list (specified_store example_says (\<lambda>t. True)) example_event []
       (example_db False)) = example_db False
   \<and> yielded (pixiv_random_list (specified_store example_says (\<lambda>t. True)) example_event []
       []) = [msg_no_tags]"
proof -
  have g: "get_random_tags (specified_store example_says (\<lambda>t. True))
             (chat_id_of example_event) (example_db False) =
           ([\<lparr>tag = [0x63, 0x61, 0x74]\<rparr>, \<lparr>tag = [0x64, 0x6F, 0x67]\<rparr>], example_db False)"
    by (simp add: specified_store_def list_tags_def example_chat example_db_def)
  have e: "get_random_tags (specified_store example_says (\<lambda>t. True))
             (chat_id_of example_event) [] = ([], [])"
    by (simp add: specified_store_def list_tags_def)
  have n: "str_nat (Suc 0) = [0x31]" "str_nat (Suc (Suc 0)) = [0x32]"
    by (simp_all add: str_nat.simps)
  have u: "[0..<2] = [0, 1]"
    by (simp add: upt_rec)
  from list_renders_in_order [of "specified_store example_says (\<lambda>t. True)" example_event "[]"
         "example_db False" "[\<lparr>tag = [0x63, 0x61, 0x74]\<rparr>, \<lparr>tag = [0x64, 0x6F, 0x67]\<rparr>]"]
       list_renders_in_order [of "specified_store example_says (\<lambda>t. True)" example_event "[]"
         "[]" "[]"]
  show ?thesis
    by (simp add: g e n u)
qed

subsection \<open>Suspending and resuming\<close>

text \<open>
  C4. The suspend and the resume command ask the store for the status of the chat
  first and reject a redundant request themselves: without configuration both yield
  the no-configuration message, suspend on a suspended chat yields the
  already-suspended message and resume on an active chat the already-running message.
  In each of these cases the status request is the only call: neither
  \<open>suspend_random_search\<close> or \<open>resume_random_search\<close> nor any method of the service runs.
\<close>

theorem suspend_resume_reject_redundant:
  "(get_random_search_status db (chat_id_of ev) w = ((False, flag), w1) \<longrightarrow>
      pixiv_random_suspend db svc ev w =
        \<lparr>world = w1, yielded = [msg_no_config],
         calls = [GetRandomSearchStatus (chat_id_of ev)], raised = None\<rparr>
      \<and> pixiv_random_resume db svc ev w =
        \<lparr>world = w1, yielded = [msg_no_config],
         calls = [GetRandomSearchStatus (chat_id_of ev)], raised = None\<rparr>)
   \<and> (get_random_search_status db (chat_id_of ev) w = ((True, True), w1) \<longrightarrow>
      pixiv_random_suspend db svc ev w =
        \<lparr>world = w1, yielded = [msg_already_suspended],
         calls = [GetRandomSearchStatus (chat_id_of ev)], raised = None\<rparr>)
   \<and> (get_random_search_status db (chat_id_of ev) w = ((True, False), w1) \<longrightarrow>
      pixiv_random_resume db svc ev w =
        \<lparr>world = w1, yielded = [msg_already_running],
         calls = [GetRandomSearchStatus (chat_id_of ev)], raised = None\<rparr>)"
  by (simp add: pixiv_random_suspend_def pixiv_random_resume_def Let_def)

theorem suspend_resume_reject_redundant_witness:
  "pixiv_random_suspend (specified_store example_says (\<lambda>t. True))
       (canned_service empty_status True) example_event [] =
     \<lparr>world = [], yielded = [msg_no_config],
      calls = [GetRandomSearchStatus [0x67, 0x31]], raised = None\<rparr>
   \<and> pixiv_random_resume (specified_store example_says (\<lambda>t. True))
       (canned_service empty_status True) example_event [] =
     \<lparr>world = [], yielded = [msg_no_config],
      calls = [GetRandomSearchStatus [0x67, 0x31]], raised = None\<rparr>
   \<and> pixiv_random_suspend (specified_store example_says (\<lambda>t. True))
       (canned_service empty_status True) example_event (example_db True) =
     \<lparr>world = example_db True, yielded = [msg_already_suspended],
      calls = [GetRandomSearchStatus [0x67, 0x31]], raised = None\<rparr>
   \<and> pixiv_random_resume (specified_store example_says (\<lambda>t. True))
       (canned_service empty_status True) example_event (example_db False) =
     \<lparr>world = example_db False, yielded = [msg_already_running],
      calls = [GetRandomSearchStatus [0x67, 0x31]], raised = None\<rparr>"
proof -
  have n: "get_random_search_status (specified_store example_says (\<lambda>t. True))
             (chat_id_of example_event) [] = ((False, False), [])"
    by (simp add: specified_store_def get_status_def)
  have s: "get_random_search_status (specified_store example_says (\<lambda>t. True))
             (chat_id_of example_event) (example_db True) = ((True, True), example_db True)"
    by (simp add: specified_store_def get_status_def example_chat example_db_def)
  have a: "get_random_search_status (specified_store example_says (\<lambda>t. True))
             (chat_id_of example_event) (example_db False) = ((True, False), example_db False)"
    by (simp add: specified_store_def get_status_def example_chat example_db_def)
  from suspend_resume_reject_redundant [of "specified_store example_says (\<lambda>t. True)"
         example_event "[]" False "[]" "canned_service empty_status True"] n
       suspend_resume_reject_redundant [of "specified_store example_says (\<lambda>t. True)"
         example_event "example_db True" False "example_db True"
         "canned_service empty_status True"] s
       suspend_resume_reject_redundant [of "specified_store example_says (\<lambda>t. True)"
         example_event "example_db False" False "example_db False"
         "canned_service empty_status True"] a
  show ?thesis
    by (simp add: example_chat)
qed

subsection \<open>The status command\<close>

lemma field_then_newline:
  assumes "py_str i @ 0xA # r = py_str j @ 0xA # r'"
  shows "i = j \<and> r = r'"
proof -
  have "0xA \<notin> set (py_str i)" "0xA \<notin> set (py_str j)" by (simp_all add: py_str_free)
  from split_at_first [OF this assms] show ?thesis by (simp add: py_str_inj)
qed

lemma field_after_blank:
  assumes "x @ 0x20 # str_nat i = y @ 0x20 # str_nat j"
  shows "i = j \<and> x = y"
proof -
  from assms have "rev (x @ 0x20 # str_nat i) = rev (y @ 0x20 # str_nat j)" by simp
  then have e: "rev (str_nat i) @ 0x20 # rev x = rev (str_nat j) @ 0x20 # rev y" by simp
  have "0x20 \<notin> set (rev (str_nat i))" "0x20 \<notin> set (rev (str_nat j))"
    by (simp_all add: str_nat_free)
  from split_at_first [OF this e] show ?thesis by (simp add: str_nat_inj)
qed

text \<open>
  The text of a snapshot determines what it shows of each of the four fields: the queue
  size, whether the processor runs, the number and the joined names of the active
  groups, and the number of execution locks.
\<close>

lemma status_text_shows_fields:
  assumes eq: "status_text a = status_text b"
  shows "queue_size a = queue_size b
         \<and> is_queue_processor_running a = is_queue_processor_running b
         \<and> length (active_groups a) = length (active_groups b)
         \<and> join [0x2C, 0x20] (active_groups a) = join [0x2C, 0x20] (active_groups b)
         \<and> length (execution_locks a) = length (execution_locks b)"
proof -
  define opt where "opt s = (if active_groups s \<noteq> []
       then lbl_active_groups @ join [0x2C, 0x20] (active_groups s) @ [0xA] else [])"
    for s :: queue_status
  define yn where "yn s = (if is_queue_processor_running s then txt_yes else txt_no)"
    for s :: queue_status
  define tail3 where "tail3 s = opt s @ lbl_locks
       @ py_str (int (length (execution_locks s))) @ txt_locks_suffix"
    for s :: queue_status
  define tail2 where "tail2 s = lbl_active_count
       @ py_str (int (length (active_groups s))) @ 0xA # tail3 s"
    for s :: queue_status
  define tail1 where "tail1 s = lbl_processor_running @ yn s @ 0xA # tail2 s"
    for s :: queue_status
  have shape: "status_text s = msg_status_header @ lbl_queue_size
                 @ py_str (queue_size s) @ 0xA # tail1 s" for s
    by (simp add: status_text_def Let_def tail1_def tail2_def tail3_def opt_def yn_def)
  from eq have "py_str (queue_size a) @ 0xA # tail1 a = py_str (queue_size b) @ 0xA # tail1 b"
    by (simp add: shape)
  then have q: "queue_size a = queue_size b" and t1: "tail1 a = tail1 b"
    using field_then_newline by blast+
  from t1 have "yn a @ 0xA # tail2 a = yn b @ 0xA # tail2 b"
    by (simp add: tail1_def)
  then have r: "is_queue_processor_running a = is_queue_processor_running b"
    and t2: "tail2 a = tail2 b"
    by (auto simp: yn_def txt_yes_def txt_no_def split: if_splits)
  from t2 have "py_str (int (length (active_groups a))) @ 0xA # tail3 a
              = py_str (int (length (active_groups b))) @ 0xA # tail3 b"
    by (simp add: tail2_def)
  then have "int (length (active_groups a)) = int (length (active_groups b))"
    and t3: "tail3 a = tail3 b"
    using field_then_newline by blast+
  then have n: "length (active_groups a) = length (active_groups b)" by simp
  have lk: "lbl_locks = [0x603B, 0x9501, 0x72B6, 0x6001, 0x3A] @ [0x20]"
    by (simp add: lbl_locks_def)
  from t3 have "(opt a @ [0x603B, 0x9501, 0x72B6, 0x6001, 0x3A]) @ 0x20
                  # str_nat (length (execution_locks a))
              = (opt b @ [0x603B, 0x9501, 0x72B6, 0x6001, 0x3A]) @ 0x20
                  # str_nat (length (execution_locks b))"
    by (simp add: tail3_def lk py_str_length)
  then have k: "length (execution_locks a) = length (execution_locks b)"
    and "opt a @ [0x603B, 0x9501, 0x72B6, 0x6001, 0x3A]
           = opt b @ [0x603B, 0x9501, 0x72B6, 0x6001, 0x3A]"
    using field_after_blank by blast+
  then have o: "opt a = opt b" by simp
  have j: "join [0x2C, 0x20] (active_groups a) = join [0x2C, 0x20] (active_groups b)"
  proof (cases "active_groups a = []")
    case True
    with n show ?thesis by simp
  next
    case False
    with n have "active_groups b \<noteq> []" by auto
    with False o show ?thesis by (simp add: opt_def)
  qed
  from q r n j k show ?thesis by simp
qed

lemma status_reads_once:
  "pixiv_random_status svc ev w =
     \<lparr>world = snd (get_queue_status svc w),
      yielded = [status_text (fst (get_queue_status svc w))],
      calls = [GetQueueStatus], raised = None\<rparr>"
  by (cases "get_queue_status svc w") (simp add: pixiv_random_status_def)

text \<open>
  C9. The snapshot that the specified \<open>get_queue_status\<close> returns has the four fields:
  \<open>queue_size\<close> is the length of the work queue (an integer),
  \<open>is_queue_processor_running\<close> says whether the processor task runs (a boolean),
  \<open>active_groups\<close> are the active chats, and \<open>execution_locks\<close> maps every chat that has
  a lock to whether that lock is held. Taking it does not block on a lock: it returns
  in every state, whichever locks are held, and leaves the state as it was. The status
  command renders all four fields: its text is the header, the queue size, yes or no
  for the processor, the number of active groups, their names when there are any, and
  the number of locks; two snapshots with the same text agree on each of these. The one
  call of the handler is \<open>get_queue_status\<close>; against the specified one the handler
  leaves the state, and with it every lock, as it was.
\<close>

theorem status_renders_snapshot:
  "pixiv_random_status svc ev w =
     \<lparr>world = snd (get_queue_status svc w),
      yielded =
        [msg_status_header
         @ lbl_queue_size @ py_str (queue_size (fst (get_queue_status svc w))) @ [0xA]
         @ lbl_processor_running
         @ (if is_queue_processor_running (fst (get_queue_status svc w)) then txt_yes else txt_no)
         @ [0xA]
         @ lbl_active_count
         @ py_str (int (length (active_groups (fst (get_queue_status svc w))))) @ [0xA]
         @ (if active_groups (fst (get_queue_status svc w)) \<noteq> []
            then lbl_active_groups
                 @ join [0x2C, 0x20] (active_groups (fst (get_queue_status svc w))) @ [0xA]
            else [])
         @ lbl_locks
         @ py_str (int (length (execution_locks (fst (get_queue_status svc w)))))
         @ txt_locks_suffix],
      calls = [GetQueueStatus], raised = None\<rparr>
   \<and> (yielded (pixiv_random_status svc ev w) = yielded (pixiv_random_status svc' ev' w') \<longrightarrow>
        queue_size (fst (get_queue_status svc w)) = queue_size (fst (get_queue_status svc' w'))
        \<and> is_queue_processor_running (fst (get_queue_status svc w))
            = is_queue_processor_running (fst (get_queue_status svc' w'))
        \<and> length (active_groups (fst (get_queue_status svc w)))
            = length (active_groups (fst (get_queue_status svc' w')))
        \<and> join [0x2C, 0x20] (active_groups (fst (get_queue_status svc w)))
            = join [0x2C, 0x20] (active_groups (fst (get_queue_status svc' w')))
        \<and> length (execution_locks (fst (get_queue_status svc w)))
            = length (execution_locks (fst (get_queue_status svc' w'))))
   \<and> snd (core_get_queue_status u) = u
   \<and> queue_size (fst (core_get_queue_status u)) = int (length (work_queue (sched u)))
   \<and> is_queue_processor_running (fst (core_get_queue_status u)) = processor_alive u
   \<and> active_groups (fst (core_get_queue_status u)) = active_chats u
   \<and> execution_locks (fst (core_get_queue_status u))
       = map (\<lambda>c. (c, lock_held (sched u) c = Some True)) (lock_chats u)
   \<and> (get_queue_status obs = core_get_queue_status \<longrightarrow>
        pixiv_random_status obs ev u =
          \<lparr>world = u, yielded = [status_text (fst (core_get_queue_status u))],
           calls = [GetQueueStatus], raised = None\<rparr>
        \<and> lock_held (sched (world (pixiv_random_status obs ev u))) = lock_held (sched u))"
proof (intro conjI impI)
  show "pixiv_random_status svc ev w =
     \<lparr>world = snd (get_queue_status svc w),
      yielded =
        [msg_status_header
         @ lbl_queue_size @ py_str (queue_size (fst (get_queue_status svc w))) @ [0xA]
         @ lbl_processor_running
         @ (if is_queue_processor_running (fst (get_queue_status svc w)) then txt_yes else txt_no)
         @ [0xA]
         @ lbl_active_count
         @ py_str (int (length (active_groups (fst (get_queue_status svc w))))) @ [0xA]
         @ (if active_groups (fst (get_queue_status svc w)) \<noteq> []
            then lbl_active_groups
                 @ join [0x2C, 0x20] (active_groups (fst (get_queue_status svc w))) @ [0xA]
            else [])
         @ lbl_locks
         @ py_str (int (length (execution_locks (fst (get_queue_status svc w)))))
         @ txt_locks_suffix],
      calls = [GetQueueStatus], raised = None\<rparr>"
    by (simp add: status_reads_once status_text_def Let_def)
next
  assume "yielded (pixiv_random_status svc ev w) = yielded (pixiv_random_status svc' ev' w')"
  then have "status_text (fst (get_queue_status svc w))
               = status_text (fst (get_queue_status svc' w'))"
    by (simp add: status_reads_once)
  from status_text_shows_fields [OF this]
  show "queue_size (fst (get_queue_status svc w)) = queue_size (fst (get_queue_status svc' w'))"
    and "is_queue_processor_running (fst (get_queue_status svc w))
            = is_queue_processor_running (fst (get_queue_status svc' w'))"
    and "length (active_groups (fst (get_queue_status svc w)))
            = length (active_groups (fst (get_queue_status svc' w')))"
    and "join [0x2C, 0x20] (active_groups (fst (get_queue_status svc w)))
            = join [0x2C, 0x20] (active_groups (fst (get_queue_status svc' w')))"
    and "length (execution_locks (fst (get_queue_status svc w)))
            = length (execution_locks (fst (get_queue_status svc' w')))"
    by simp_all
next
  show "snd (core_get_queue_status u) = u"
    by (simp add: core_get_queue_status_def)
  show "queue_size (fst (core_get_queue_status u)) = int (length (work_queue (sched u)))"
    by (simp add: core_get_queue_status_def)
  show "is_queue_processor_running (fst (core_get_queue_status u)) = processor_alive u"
    by (simp add: core_get_queue_status_def)
  show "active_groups (fst (core_get_queue_status u)) = active_chats u"
    by (simp add: core_get_queue_status_def)
  show "execution_locks (fst (core_get_queue_status u))
          = map (\<lambda>c. (c, lock_held (sched u) c = Some True)) (lock_chats u)"
    by (simp add: core_get_queue_status_def executing_def)
next
  assume o: "get_queue_status obs = core_get_queue_status"
  have s: "snd (core_get_queue_status u) = u"
    by (simp add: core_get_queue_status_def)
  from o s show r: "pixiv_random_status obs ev u =
          \<lparr>world = u, yielded = [status_text (fst (core_get_queue_status u))],
           calls = [GetQueueStatus], raised = None\<rparr>"
    by (simp add: status_reads_once)
  from r show "lock_held (sched (world (pixiv_random_status obs ev u))) = lock_held (sched u)"
    by simp
qed

theorem status_renders_snapshot_witness:
  "pixiv_random_status
       (canned_service
          \<lparr>queue_size = 1, is_queue_processor_running = True,
           active_groups = [[0x67, 0x31], [0x67, 0x32]],
           execution_locks = [([0x67, 0x31], True)]\<rparr> True)
       example_event (0::nat) =
     \<lparr>world = 0,
      yielded =
        [msg_status_header
         @ lbl_queue_size @ [0x31, 0xA]
         @ lbl_processor_running @ txt_yes @ [0xA]
         @ lbl_active_count @ [0x32, 0xA]
         @ lbl_active_groups @ [0x67, 0x31, 0x2C, 0x20, 0x67, 0x32, 0xA]
         @ lbl_locks @ [0x31] @ txt_locks_suffix],
      calls = [GetQueueStatus], raised = None\<rparr>
   \<and> yielded (pixiv_random_status
        (canned_service (empty_status\<lparr>execution_locks := [([0x67, 0x31], True)]\<rparr>) True)
        example_event (0::nat))
     = yielded (pixiv_random_status
        (canned_service (empty_status\<lparr>execution_locks := [([0x67, 0x32], False)]\<rparr>) False)
        example_event (1::nat))
   \<and> length (execution_locks (fst (get_queue_status
        (canned_service (empty_status\<lparr>execution_locks := [([0x67, 0x31], True)]\<rparr>) True)
        (0::nat))))
     = length (execution_locks (fst (get_queue_status
        (canned_service (empty_status\<lparr>execution_locks := [([0x67, 0x32], False)]\<rparr>) False)
        (1::nat))))
   \<and> pixiv_random_status observing_service example_event busy_service_state =
       \<lparr>world = busy_service_state,
        yielded = [status_text \<lparr>queue_size = 1, is_queue_processor_running = True,
                                active_groups = [[0x67, 0x31]],
                                execution_locks = [([0x67, 0x31], True)]\<rparr>],
        calls = [GetQueueStatus], raised = None\<rparr>"
proof -
  have n: "str_nat (Suc 0) = [0x31]" "str_nat 2 = [0x32]"
    by (simp_all add: str_nat.simps)
  have e: "yielded (pixiv_random_status
        (canned_service (empty_status\<lparr>execution_locks := [([0x67, 0x31], True)]\<rparr>) True)
        example_event (0::nat))
     = yielded (pixiv_random_status
        (canned_service (empty_status\<lparr>execution_locks := [([0x67, 0x32], False)]\<rparr>) False)
        example_event (1::nat))"
    by (simp add: pixiv_random_status_def canned_service_def status_text_def empty_status_def)
  note shown = status_renders_snapshot [of
         "canned_service
            \<lparr>queue_size = 1, is_queue_processor_running = True,
             active_groups = [[0x67, 0x31], [0x67, 0x32]],
             execution_locks = [([0x67, 0x31], True)]\<rparr> True"
         example_event "0::nat", THEN conjunct1]
  note same = status_renders_snapshot [of
         "canned_service (empty_status\<lparr>execution_locks := [([0x67, 0x31], True)]\<rparr>) True"
         example_event "0::nat"
         "canned_service (empty_status\<lparr>execution_locks := [([0x67, 0x32], False)]\<rparr>) False"
         example_event "1::nat", THEN conjunct2, THEN conjunct1, THEN mp, OF e]
  have first: "pixiv_random_status
       (canned_service
          \<lparr>queue_size = 1, is_queue_processor_running = True,
           active_groups = [[0x67, 0x31], [0x67, 0x32]],
           execution_locks = [([0x67, 0x31], True)]\<rparr> True)
       example_event (0::nat) =
     \<lparr>world = 0,
      yielded =
        [msg_status_header
         @ lbl_queue_size @ [0x31, 0xA]
         @ lbl_processor_running @ txt_yes @ [0xA]
         @ lbl_active_count @ [0x32, 0xA]
         @ lbl_active_groups @ [0x67, 0x31, 0x2C, 0x20, 0x67, 0x32, 0xA]
         @ lbl_locks @ [0x31] @ txt_locks_suffix],
      calls = [GetQueueStatus], raised = None\<rparr>"
    using shown by (simp add: canned_service_def py_str_def n)
  have o: "get_queue_status observing_service = core_get_queue_status"
    by (simp add: observing_service_def)
  have v: "fst (core_get_queue_status busy_service_state) =
             \<lparr>queue_size = 1, is_queue_processor_running = True,
              active_groups = [[0x67, 0x31]], execution_locks = [([0x67, 0x31], True)]\<rparr>"
    by (simp add: core_get_queue_status_def busy_service_state_def executing_def)
  note busy = status_renders_snapshot [where obs = observing_service and ev = example_event
         and u = busy_service_state and svc = "canned_service empty_status True"
         and svc' = "canned_service empty_status True" and w = "0::nat" and w' = "0::nat"
         and ev' = example_event]
  from busy o v have last: "pixiv_random_status observing_service example_event
        busy_service_state =
       \<lparr>world = busy_service_state,
        yielded = [status_text \<lparr>queue_size = 1, is_queue_processor_running = True,
                                active_groups = [[0x67, 0x31]],
                                execution_locks = [([0x67, 0x31], True)]\<rparr>],
        calls = [GetQueueStatus], raised = None\<rparr>"
    by simp
  from first e same last show ?thesis by simp
qed

subsection \<open>One chat identity for all handlers\<close>






subsection \<open>Forced execution\<close>

lemma force_texts_differ:
  "msg_force_failed \<noteq> msg_force_queued" "msg_no_config \<noteq> msg_force_failed"
  "msg_no_config \<noteq> msg_force_queued"
  by (simp_all add: msg_force_failed_def msg_force_queued_def msg_no_config_def)

text \<open>
  C3. The specified \<open>force_execute_group\<close> returns false and leaves the core, and with
  it the queue, as it was whenever the chat is Queued or Executing. The force command
  yields the already-busy message exactly when it called \<open>force_execute_group\<close> and the
  call returned false, and the enqueued message exactly when the call returned true;
  it makes the call exactly when the store reports a configuration for the chat.
\<close>

theorem force_busy_reported:
  "(in_queue s c \<or> executing s c \<longrightarrow> core_force_execute_group c s = (False, s))
   \<and> (yielded (pixiv_random_force db svc ev w) = [msg_force_failed] \<longleftrightarrow>
        fst (fst (get_random_search_status db (chat_id_of ev) w))
        \<and> \<not> fst (force_execute_group svc (chat_id_of ev)
                   (snd (get_random_search_status db (chat_id_of ev) w))))
   \<and> (yielded (pixiv_random_force db svc ev w) = [msg_force_queued] \<longleftrightarrow>
        fst (fst (get_random_search_status db (chat_id_of ev) w))
        \<and> fst (force_execute_group svc (chat_id_of ev)
                 (snd (get_random_search_status db (chat_id_of ev) w))))
   \<and> (ForceExecuteGroup (chat_id_of ev) \<in> set (calls (pixiv_random_force db svc ev w)) \<longleftrightarrow>
        fst (fst (get_random_search_status db (chat_id_of ev) w)))"
proof (intro conjI)
  show "in_queue s c \<or> executing s c \<longrightarrow> core_force_execute_group c s = (False, s)"
    by (simp add: core_force_execute_group_def)
next
  obtain has_config is_suspended w1
    where st: "get_random_search_status db (chat_id_of ev) w = ((has_config, is_suspended), w1)"
    by (metis surj_pair)
  obtain ok w2 where f: "force_execute_group svc (chat_id_of ev) w1 = (ok, w2)"
    by (metis surj_pair)
  show "yielded (pixiv_random_force db svc ev w) = [msg_force_failed] \<longleftrightarrow>
        fst (fst (get_random_search_status db (chat_id_of ev) w))
        \<and> \<not> fst (force_execute_group svc (chat_id_of ev)
                   (snd (get_random_search_status db (chat_id_of ev) w)))"
    using force_texts_differ by (auto simp add: pixiv_random_force_def st f Let_def)
  show "yielded (pixiv_random_force db svc ev w) = [msg_force_queued] \<longleftrightarrow>
        fst (fst (get_random_search_status db (chat_id_of ev) w))
        \<and> fst (force_execute_group svc (chat_id_of ev)
                 (snd (get_random_search_status db (chat_id_of ev) w)))"
    using force_texts_differ by (auto simp add: pixiv_random_force_def st f Let_def)
  show "ForceExecuteGroup (chat_id_of ev) \<in> set (calls (pixiv_random_force db svc ev w)) \<longleftrightarrow>
        fst (fst (get_random_search_status db (chat_id_of ev) w))"
    by (simp add: pixiv_random_force_def st f Let_def)
qed

theorem force_busy_reported_witness:
  "in_queue (example_scheduler [[0x67, 0x31]]) [0x67, 0x31]
   \<and> core_force_execute_group [0x67, 0x31] (example_scheduler [[0x67, 0x31]])
       = (False, example_scheduler [[0x67, 0x31]])
   \<and> yielded (pixiv_random_force (canned_store (True, False)) queueing_service example_event
        (example_scheduler [[0x67, 0x31]])) = [msg_force_failed]
   \<and> yielded (pixiv_random_force (canned_store (True, False)) queueing_service example_event
        (example_scheduler [])) = [msg_force_queued]
   \<and> ForceExecuteGroup [0x67, 0x31]
        \<notin> set (calls (pixiv_random_force (canned_store (False, False)) queueing_service
                   example_event (example_scheduler [])))"
proof -
  have q: "in_queue (example_scheduler [[0x67, 0x31]]) [0x67, 0x31]"
    by (simp add: in_queue_def example_scheduler_def)
  note busy = force_busy_reported [of "example_scheduler [[0x67, 0x31]]" "[0x67, 0x31]"
      "canned_store (True, False)" queueing_service example_event
      "example_scheduler [[0x67, 0x31]]"]
  note idle = force_busy_reported [of "example_scheduler [[0x67, 0x31]]" "[0x67, 0x31]"
      "canned_store (True, False)" queueing_service example_event "example_scheduler []"]
  note none = force_busy_reported [of "example_scheduler [[0x67, 0x31]]" "[0x67, 0x31]"
      "canned_store (False, False)" queueing_service example_event "example_scheduler []"]
  from busy q have 1: "core_force_execute_group [0x67, 0x31] (example_scheduler [[0x67, 0x31]])
       = (False, example_scheduler [[0x67, 0x31]])"
    by blast
  from busy 1 have 2: "yielded (pixiv_random_force (canned_store (True, False)) queueing_service
        example_event (example_scheduler [[0x67, 0x31]])) = [msg_force_failed]"
    by (simp add: canned_store_def queueing_service_def example_chat)
  from idle have 3: "yielded (pixiv_random_force (canned_store (True, False)) queueing_service
        example_event (example_scheduler [])) = [msg_force_queued]"
    by (simp add: canned_store_def queueing_service_def example_chat core_force_execute_group_def
        in_queue_def executing_def example_scheduler_def)
  from none have 4: "ForceExecuteGroup [0x67, 0x31]
        \<notin> set (calls (pixiv_random_force (canned_store (False, False)) queueing_service
                   example_event (example_scheduler [])))"
    by (simp add: canned_store_def example_chat)
  from q 1 2 3 4 show ?thesis by blast
qed

lemma tick_chat_suspended:
  assumes "map_of db c = Some cfg" and "suspended cfg"
  shows "count_list (work_queue (tick_chat now db c' s)) c = count_list (work_queue s) c"
proof (cases "c' = c")
  case True
  with assms show ?thesis by (simp add: tick_chat_def)
next
  case False
  then show ?thesis
    by (simp add: tick_chat_def enqueue_def split: option.splits)
qed

lemma fold_tick_chat_suspended:
  assumes "map_of db c = Some cfg" and "suspended cfg"
  shows "count_list (work_queue (fold (tick_chat now db) cs s)) c = count_list (work_queue s) c"
proof (induction cs arbitrary: s)
  case Nil
  show ?case by simp
next
  case (Cons c' cs)
  have "count_list (work_queue (fold (tick_chat now db) cs (tick_chat now db c' s))) c
          = count_list (work_queue (tick_chat now db c' s)) c"
    by (rule Cons.IH)
  also have "\<dots> = count_list (work_queue s) c"
    using assms by (rule tick_chat_suspended)
  finally show ?case by simp
qed

text \<open>A chat that is not suspended, has a tag and is due is enqueued by the tick.\<close>

lemma tick_enqueues_due_chat:
  "work_queue (tick 5 (example_db False) (example_scheduler [])) = [[0x67, 0x31]]"
  by (simp add: tick_def tick_chat_def example_db_def example_scheduler_def in_queue_def
      enqueue_def)

text \<open>
  C5. The specified tick never enqueues a suspended chat: it leaves the number of
  entries of that chat in the work queue as it was. Forced execution does not look at
  the suspended flag: the specified \<open>force_execute_group\<close> enqueues any chat that is
  neither Queued nor Executing, and for every chat with a configuration the force
  command calls \<open>force_execute_group\<close>, whether the store reports the chat as suspended
  or not, and leaves the state that call leaves.
\<close>

theorem force_bypasses_suspension:
  "(map_of tdb c = Some cfg \<and> suspended cfg \<longrightarrow>
      count_list (work_queue (tick now tdb s)) c = count_list (work_queue s) c)
   \<and> (\<not> in_queue s c \<and> \<not> executing s c \<longrightarrow>
      core_force_execute_group c s = (True, s\<lparr>work_queue := work_queue s @ [c]\<rparr>))
   \<and> (get_random_search_status db (chat_id_of ev) w = ((True, is_suspended), w1) \<longrightarrow>
      calls (pixiv_random_force db svc ev w)
        = [GetRandomSearchStatus (chat_id_of ev), ForceExecuteGroup (chat_id_of ev)]
      \<and> world (pixiv_random_force db svc ev w) = snd (force_execute_group svc (chat_id_of ev) w1))"
proof (intro conjI impI)
  assume "map_of tdb c = Some cfg \<and> suspended cfg"
  then show "count_list (work_queue (tick now tdb s)) c = count_list (work_queue s) c"
    unfolding tick_def using fold_tick_chat_suspended by blast
next
  assume "\<not> in_queue s c \<and> \<not> executing s c"
  then show "core_force_execute_group c s = (True, s\<lparr>work_queue := work_queue s @ [c]\<rparr>)"
    by (simp add: core_force_execute_group_def enqueue_def)
next
  assume st: "get_random_search_status db (chat_id_of ev) w = ((True, is_suspended), w1)"
  obtain ok w2 where f: "force_execute_group svc (chat_id_of ev) w1 = (ok, w2)"
    by (metis surj_pair)
  show "calls (pixiv_random_force db svc ev w)
          = [GetRandomSearchStatus (chat_id_of ev), ForceExecuteGroup (chat_id_of ev)]"
    by (simp add: pixiv_random_force_def st f Let_def)
  show "world (pixiv_random_force db svc ev w) = snd (force_execute_group svc (chat_id_of ev) w1)"
    by (simp add: pixiv_random_force_def st f Let_def)
qed

theorem force_bypasses_suspension_witness:
  "work_queue (tick 5 (example_db True) (example_scheduler [])) = []
   \<and> core_force_execute_group [0x67, 0x31] (example_scheduler [])
       = (True, example_scheduler [[0x67, 0x31]])
   \<and> calls (pixiv_random_force (canned_store (True, True)) queueing_service example_event
        (example_scheduler []))
       = [GetRandomSearchStatus [0x67, 0x31], ForceExecuteGroup [0x67, 0x31]]
   \<and> world (pixiv_random_force (canned_store (True, True)) queueing_service example_event
        (example_scheduler [])) = example_scheduler [[0x67, 0x31]]"
proof -
  have m: "map_of (example_db True) [0x67, 0x31]
             = Some \<lparr>session_id = [0x73, 0x31], tags = [[0x63, 0x61, 0x74], [0x64, 0x6F, 0x67]],
                     suspended = True\<rparr>
           \<and> suspended \<lparr>session_id = [0x73, 0x31],
                         tags = [[0x63, 0x61, 0x74], [0x64, 0x6F, 0x67]], suspended = True\<rparr>"
    by (simp add: example_db_def)
  have i: "\<not> in_queue (example_scheduler []) [0x67, 0x31]
           \<and> \<not> executing (example_scheduler []) [0x67, 0x31]"
    by (simp add: in_queue_def executing_def example_scheduler_def)
  have st: "get_random_search_status (canned_store (True, True)) (chat_id_of example_event)
              (example_scheduler []) = ((True, True), example_scheduler [])"
    by (simp add: canned_store_def)
  note t = force_bypasses_suspension [of "example_db True" "[0x67, 0x31]"
      "\<lparr>session_id = [0x73, 0x31], tags = [[0x63, 0x61, 0x74], [0x64, 0x6F, 0x67]],
        suspended = True\<rparr>"
      5 "example_scheduler []" "canned_store (True, True)" example_event
      "example_scheduler []" True "example_scheduler []" queueing_service]
  from t m have "count_list (work_queue (tick 5 (example_db True) (example_scheduler [])))
                   [0x67, 0x31] = count_list (work_queue (example_scheduler [])) [0x67, 0x31]"
    by blast
  then have c: "count_list (work_queue (tick 5 (example_db True) (example_scheduler [])))
                  [0x67, 0x31] = 0"
    by (simp add: example_scheduler_def)
  have 1: "work_queue (tick 5 (example_db True) (example_scheduler [])) = []"
    by (simp add: tick_def tick_chat_def example_db_def example_scheduler_def)
  from t i have 2: "core_force_execute_group [0x67, 0x31] (example_scheduler [])
       = (True, example_scheduler [[0x67, 0x31]])"
    by (simp add: example_scheduler_def)
  from t st 2 have 3: "calls (pixiv_random_force (canned_store (True, True)) queueing_service
        example_event (example_scheduler []))
       = [GetRandomSearchStatus [0x67, 0x31], ForceExecuteGroup [0x67, 0x31]]
     \<and> world (pixiv_random_force (canned_store (True, True)) queueing_service example_event
        (example_scheduler [])) = example_scheduler [[0x67, 0x31]]"
    by (simp add: example_chat queueing_service_def)
  from c 1 2 3 show ?thesis by blast
qed

subsection \<open>Shutting down\<close>

text \<open>
  C2. The claim is that \<open>terminate\<close> cancels the tick generator and the queue processor
  of the random search. It does not: \<open>terminate\<close> stops the subscription service, waits
  for the refresh task and closes the HTTP session, and never touches
  \<open>random_search_service\<close>. Whatever the state of the plugin, the service is after
  \<open>terminate\<close> what it was before; after \<open>__init__\<close> has started it, both of its tasks
  are still running when \<open>terminate\<close> has returned, while the subscription service
  started beside it has been stopped.
\<close>

theorem terminate_skips_random_search:
  "random_search_service (terminate p) = random_search_service p
   \<and> tick_generator_running (random_search_service (terminate (plugin_init enabled)))
   \<and> queue_processor_running (random_search_service (terminate (plugin_init enabled)))
   \<and> sub_service (terminate (plugin_init True)) = Some False"
proof (intro conjI)
  show same: "random_search_service (terminate p) = random_search_service p" for p
    by (simp add: terminate_def Let_def split: option.splits)
  show "tick_generator_running (random_search_service (terminate (plugin_init enabled)))"
    by (simp add: same plugin_init_def service_start_def)
  show "queue_processor_running (random_search_service (terminate (plugin_init enabled)))"
    by (simp add: same plugin_init_def service_start_def)
  show "sub_service (terminate (plugin_init True)) = Some False"
    by (simp add: terminate_def plugin_init_def)
qed

end
